theory Spec2Isabelle
  imports Main
begin

unbundle bit_operations_syntax

section \<open>The state of \<^verbatim>\<open>pg_backup_utils.c\<close>\<close>

text \<open>
  The file keeps process-wide variables: the capture slot \<^verbatim>\<open>g_outMsgBuf\<close> (a
  \<^verbatim>\<open>char **\<close>), the resumption point \<^verbatim>\<open>g_jmpEnv\<close> (a \<^verbatim>\<open>jmp_buf *\<close>),
  \<^verbatim>\<open>progname\<close>, and the static array \<^verbatim>\<open>on_exit_nicely_list\<close> of
  \<^verbatim>\<open>MAX_ON_EXIT_NICELY\<close> entries with its fill count \<^verbatim>\<open>on_exit_nicely_index\<close>.
  Pointers are addresses (\<open>None\<close> is \<^verbatim>\<open>NULL\<close>); a C string is the list of its
  characters before the terminating NUL.  The \<^verbatim>\<open>char *\<close> variables of the host
  that a capture slot may point to live in \<open>store\<close>.  Everything else the process
  owns (archives, connections, what the finalizers work on) is \<open>world\<close>.
\<close>

type_synonym addr = nat

type_synonym on_exit_nicely_callback = nat

datatype fmt_arg = Str string | Num int

datatype alloc_req = Malloc nat | Realloc nat

text \<open>
  \<^verbatim>\<open>pg_restore.c\<close> adds the variables of \<^verbatim>\<open>getopt_long\<close> (\<^verbatim>\<open>optind\<close>,
  \<^verbatim>\<open>optarg\<close>), the five \<^verbatim>\<open>static int\<close> flags of \<^verbatim>\<open>pg_restore_internal\<close> that the
  long options set through their flag pointers, and the fields of an archive
  handle that the driver reads and writes (\<^verbatim>\<open>verbose\<close>, \<^verbatim>\<open>exit_on_error\<close>,
  \<^verbatim>\<open>n_errors\<close>, \<^verbatim>\<open>savedPassword\<close>), kept by address.
\<close>

record restore_statics =
  static_disable_triggers :: int
  static_no_data_for_failed_tables :: int
  static_outputNoTablespaces :: int
  static_use_setsessauth :: int
  static_no_security_labels :: int

record Archive =
  AH_verbose :: int
  AH_exit_on_error :: bool
  n_errors :: int
  savedPassword :: "string option"

record 'w state =
  g_outMsgBuf :: "addr option"
  g_jmpEnv :: "unit option"
  progname :: "string option"
  on_exit_nicely_list :: "(on_exit_nicely_callback \<times> addr) list"
  on_exit_nicely_index :: nat
  store :: "addr \<Rightarrow> string option"
  heap_reqs :: "alloc_req list"
  optind :: nat
  optarg :: "string option"
  statics :: restore_statics
  archives :: "addr \<Rightarrow> Archive"
  world :: 'w

definition MAX_ON_EXIT_NICELY :: nat where
  "MAX_ON_EXIT_NICELY = 20"

text \<open>
  A call either returns to its caller or leaves through \<^verbatim>\<open>longjmp\<close>, carrying
  the value handed to \<^verbatim>\<open>longjmp\<close> and the state at that moment.  \<open>bnd\<close> is
  statement sequencing: what follows a call runs only when the call returns.
\<close>

datatype ('a, 's) outcome = Returns 'a | Longjmp int 's

definition bnd :: "('a, 's) outcome \<Rightarrow> ('a \<Rightarrow> ('b, 's) outcome) \<Rightarrow> ('b, 's) outcome" where
  "bnd m k = (case m of Returns x \<Rightarrow> k x | Longjmp v s \<Rightarrow> Longjmp v s)"

text \<open>
  What the file calls but does not define: the message catalogue lookup \<^verbatim>\<open>_()\<close>,
  the C library's formatter, the allocator's answer to a \<^verbatim>\<open>malloc\<close> or
  \<^verbatim>\<open>realloc\<close> request (given the requests made so far), the code behind each
  registered function pointer, \<^verbatim>\<open>CleanDumpable\<close>, which takes no argument,
  returns nothing and works on state outside this file, and the section bits
  \<^verbatim>\<open>DUMP_PRE_DATA\<close>, \<^verbatim>\<open>DUMP_DATA\<close>, \<^verbatim>\<open>DUMP_POST_DATA\<close> and
  \<^verbatim>\<open>DUMP_UNSECTIONED\<close> of a header.
\<close>

record 'w env =
  gettext :: "string \<Rightarrow> string"
  vsnprintf :: "string \<Rightarrow> fmt_arg list \<Rightarrow> string"
  heap_grants :: "alloc_req list \<Rightarrow> alloc_req \<Rightarrow> bool"
  callback :: "on_exit_nicely_callback \<Rightarrow> int \<Rightarrow> addr \<Rightarrow> 'w state \<Rightarrow> ('w state, 'w state) outcome"
  CleanDumpable :: "'w \<Rightarrow> 'w"
  DUMP_PRE_DATA :: int
  DUMP_DATA :: int
  DUMP_POST_DATA :: int
  DUMP_UNSECTIONED :: int

text \<open>
  \<^verbatim>\<open>%s\<close> prints the characters of its string argument.  For a \<^verbatim>\<open>NULL\<close>
  pointer the C standard leaves the output open; the model prints what glibc prints.
\<close>

definition c_str :: "string option \<Rightarrow> string" where
  "c_str p = (case p of None \<Rightarrow> ''(null)'' | Some s \<Rightarrow> s)"

section \<open>The message sink\<close>

text \<open>
  \<^verbatim>\<open>vwrite_msg\<close>: nothing happens without a capture slot.  Otherwise the title and
  the message are formatted, and the buffer the slot points to is allocated
  (\<^verbatim>\<open>malloc\<close>, slot holds \<^verbatim>\<open>NULL\<close>) or grown (\<^verbatim>\<open>realloc\<close>); when the
  allocator refuses, the slot keeps what it held.  Each request is recorded in
  \<open>heap_reqs\<close> with its size.

  \<^verbatim>\<open>asprintf\<close> and \<^verbatim>\<open>vasprintf\<close> (the C library's, or on \<^verbatim>\<open>WIN32\<close> the file's own
  two-pass wrappers around \<^verbatim>\<open>vsnprintf\<close>) are taken to deliver the formatted
  strings: the source does not test their results before \<^verbatim>\<open>strlen\<close>.  Lengths
  are natural numbers; \<^verbatim>\<open>size_t\<close> does not wrap for strings that fit in memory.
\<close>

definition vwrite_msg :: "'w env \<Rightarrow> string option \<Rightarrow> string \<Rightarrow> fmt_arg list \<Rightarrow> 'w state \<Rightarrow> 'w state" where
  "vwrite_msg env modulename fmt ap st =
     (case g_outMsgBuf st of
        None \<Rightarrow> st
      | Some slot \<Rightarrow>
          let title = (case modulename of
                         Some m \<Rightarrow> c_str (progname st) @ '': ['' @ gettext env m @ ''] ''
                       | None \<Rightarrow> c_str (progname st) @ '': '');
              message = vsnprintf env (gettext env fmt) ap;
              titleLen = length title;
              messageLen = length message
          in (case store st slot of
                None \<Rightarrow>
                  let req = Malloc (titleLen + messageLen + 1);
                      st1 = st\<lparr>heap_reqs := heap_reqs st @ [req]\<rparr>
                  in if heap_grants env (heap_reqs st) req
                     then st1\<lparr>store := (store st1)(slot := Some (title @ message))\<rparr>
                     else st1
              | Some buf \<Rightarrow>
                  let bufLen = length buf;
                      req = Realloc (bufLen + titleLen + messageLen + 1);
                      st1 = st\<lparr>heap_reqs := heap_reqs st @ [req]\<rparr>
                  in if heap_grants env (heap_reqs st) req
                     then st1\<lparr>store := (store st1)(slot := Some (buf @ title @ message))\<rparr>
                     else st1))"

definition write_msg :: "'w env \<Rightarrow> string option \<Rightarrow> string \<Rightarrow> fmt_arg list \<Rightarrow> 'w state \<Rightarrow> 'w state" where
  "write_msg env modulename fmt ap st = vwrite_msg env modulename fmt ap st"

section \<open>The cleanup registry and the termination primitive\<close>

text \<open>
  The loop of \<^verbatim>\<open>exit_nicely\<close>, \<^verbatim>\<open>for (i = on_exit_nicely_index - 1; i >= 0; i--)\<close>:
  the argument \<open>Suc i\<close> stands for the loop variable \<open>i\<close>, \<open>0\<close> for \<open>-1\<close>.  Each
  round reads entry \<open>i\<close> of the array as it is then and calls it; a callback that
  leaves through \<^verbatim>\<open>longjmp\<close> ends the loop.
\<close>

fun exit_loop :: "'w env \<Rightarrow> int \<Rightarrow> nat \<Rightarrow> 'w state \<Rightarrow> ('w state, 'w state) outcome" where
  "exit_loop env code 0 st = Returns st"
| "exit_loop env code (Suc i) st =
     bnd (callback env (fst (on_exit_nicely_list st ! i)) code (snd (on_exit_nicely_list st ! i)) st)
         (exit_loop env code i)"

text \<open>
  \<^verbatim>\<open>exit_nicely\<close> without the \<^verbatim>\<open>WIN32\<close> block: the loop, the reset of the count,
  \<^verbatim>\<open>CleanDumpable\<close>, and \<^verbatim>\<open>longjmp(*g_jmpEnv, 1)\<close> when \<^verbatim>\<open>code && g_jmpEnv\<close>;
  otherwise the function returns.
\<close>

definition exit_nicely :: "'w env \<Rightarrow> int \<Rightarrow> 'w state \<Rightarrow> ('w state, 'w state) outcome" where
  "exit_nicely env code st =
     bnd (exit_loop env code (on_exit_nicely_index st) st)
       (\<lambda>st1. let st2 = st1\<lparr>on_exit_nicely_index := 0\<rparr>;
                   st3 = st2\<lparr>world := CleanDumpable env (world st2)\<rparr>
               in if code \<noteq> 0 \<and> g_jmpEnv st3 \<noteq> None then Longjmp 1 st3 else Returns st3)"

text \<open>
  Modelled from the spec: \<^verbatim>\<open>exit_horribly\<close> is declared for this file but defined
  elsewhere.  A fatal condition is "reported via Message Sink (best-effort,
  describing the cause) then immediately routed through the Termination
  Primitive", with a non-zero code; the model passes 1.
\<close>

definition exit_horribly :: "'w env \<Rightarrow> string option \<Rightarrow> string \<Rightarrow> fmt_arg list \<Rightarrow> 'w state \<Rightarrow> ('w state, 'w state) outcome" where
  "exit_horribly env modulename fmt ap st = exit_nicely env 1 (vwrite_msg env modulename fmt ap st)"

text \<open>
  \<^verbatim>\<open>on_exit_nicely\<close>: the two stores and the increment follow the capacity
  check whenever \<^verbatim>\<open>exit_horribly\<close> returns.
\<close>

definition on_exit_nicely :: "'w env \<Rightarrow> on_exit_nicely_callback \<Rightarrow> addr \<Rightarrow> 'w state \<Rightarrow> ('w state, 'w state) outcome" where
  "on_exit_nicely env function_ptr arg st =
     bnd (if on_exit_nicely_index st \<ge> MAX_ON_EXIT_NICELY
          then exit_horribly env None ''out of on_exit_nicely slots\<newline>'' [] st
          else Returns st)
       (\<lambda>st1. Returns (st1\<lparr>on_exit_nicely_list :=
                              (on_exit_nicely_list st1)[on_exit_nicely_index st1 := (function_ptr, arg)],
                            on_exit_nicely_index := on_exit_nicely_index st1 + 1\<rparr>))"

text \<open>
  \<^verbatim>\<open>set_dump_section\<close>: the bit mask behind the pointer \<^verbatim>\<open>dumpSections\<close> is taken
  and handed back with the state.  On an unknown name two messages are written and
  \<^verbatim>\<open>exit_nicely(1)\<close> is called; when that returns, so does the function.
\<close>

definition set_dump_section :: "'w env \<Rightarrow> string \<Rightarrow> int \<Rightarrow> 'w state \<Rightarrow> (int \<times> 'w state, 'w state) outcome" where
  "set_dump_section env arg dumpSections st =
     (let ds = (if dumpSections = DUMP_UNSECTIONED env then 0 else dumpSections)
      in if arg = ''pre-data'' then Returns (ds OR DUMP_PRE_DATA env, st)
         else if arg = ''data'' then Returns (ds OR DUMP_DATA env, st)
         else if arg = ''post-data'' then Returns (ds OR DUMP_POST_DATA env, st)
         else
           let st1 = write_msg env None (gettext env ''%s: unrecognized section name: \"%s\"\<newline>'')
                       [Str (c_str (progname st)), Str arg] st;
               st2 = write_msg env None (gettext env ''Try \"%s --help\" for more information.\<newline>'')
                       [Str (c_str (progname st1))] st1
           in bnd (exit_nicely env 1 st2) (\<lambda>st3. Returns (ds, st3)))"

section \<open>The driver and the reentry boundary\<close>

text \<open>
  The option structure of the archiver, with the fields \<^verbatim>\<open>pg_restore_internal\<close>
  assigns; a \<^verbatim>\<open>char *\<close> field is \<open>None\<close> while it is \<^verbatim>\<open>NULL\<close>.
\<close>

datatype trivalue = TRI_DEFAULT | TRI_NO | TRI_YES

datatype ArchiveFormat = archUnknown | archCustom | archDirectory | archTar

record RestoreOptions =
  createDB :: int
  noOwner :: int
  noTablespace :: int
  disable_triggers :: int
  use_setsessauth :: int
  superuser :: "string option"
  use_role :: "string option"
  dataOnly :: int
  dropSchema :: int
  filename :: "string option"
  schemaOnly :: int
  dumpSections :: int
  verbose :: int
  aclsSkip :: int
  tocSummary :: int
  tocFile :: "string option"
  format :: ArchiveFormat
  formatName :: "string option"
  selTypes :: int
  selIndex :: int
  selFunction :: int
  selTrigger :: int
  selTable :: int
  indexNames :: "string option"
  functionNames :: "string option"
  tableNames :: "string option"
  schemaNames :: "string option"
  triggerNames :: "string option"
  useDB :: int
  dbname :: "string option"
  pgport :: "string option"
  pghost :: "string option"
  username :: "string option"
  noDataForFailedTables :: int
  promptPassword :: trivalue
  exit_on_error :: bool
  no_security_labels :: int
  single_txn :: bool
  number_of_jobs :: int

text \<open>
  One call of \<^verbatim>\<open>getopt_long\<close> over the option table of \<^verbatim>\<open>pg_restore_internal\<close>:
  the value returned, \<^verbatim>\<open>optarg\<close> and \<^verbatim>\<open>optind\<close> as the call leaves them, and
  the static flag a long option with a flag pointer sets to 1.
\<close>

datatype long_flag =
    Flag_disable_triggers
  | Flag_no_data_for_failed_tables
  | Flag_no_tablespaces
  | Flag_use_set_session_authorization
  | Flag_no_security_labels

record getopt_step =
  ret :: int
  step_optarg :: "string option"
  step_optind :: nat
  step_flag :: "long_flag option"

text \<open>
  What \<^verbatim>\<open>pg_restore.c\<close> calls but does not define.  \<open>getopt_long\<close> gives, for a
  command line, the results of the successive calls of \<^verbatim>\<open>getopt_long\<close> on it, up
  to the call that returns -1.  The archiver's functions work on the whole state:
  they write messages, register finalizers and call \<^verbatim>\<open>exit_nicely\<close>, so each of
  them returns or leaves through \<^verbatim>\<open>longjmp\<close>; those that take the option structure
  read it.  \<open>archive_close_connection\<close> is the function pointer
  \<^verbatim>\<open>on_exit_close_archive\<close> registers.
\<close>

record 'w driver =
  PG_VERSION :: string
  get_progname :: "string option \<Rightarrow> string"
  set_pglocale_pgservice :: "string option \<Rightarrow> 'w \<Rightarrow> 'w"
  init_parallel_dump_utils :: "'w \<Rightarrow> 'w"
  NewRestoreOptions :: RestoreOptions
  getopt_long :: "string list \<Rightarrow> getopt_step list"
  pg_strdup :: "string option \<Rightarrow> 'w state \<Rightarrow> (string option \<times> 'w state, 'w state) outcome"
  atoi :: "string \<Rightarrow> int"
  OpenArchive :: "string option \<Rightarrow> ArchiveFormat \<Rightarrow> 'w state \<Rightarrow> (addr \<times> 'w state, 'w state) outcome"
  archive_close_connection :: on_exit_nicely_callback
  SortTocFromFile :: "addr \<Rightarrow> RestoreOptions \<Rightarrow> 'w state \<Rightarrow> ('w state, 'w state) outcome"
  PrintTOCSummary :: "addr \<Rightarrow> RestoreOptions \<Rightarrow> 'w state \<Rightarrow> ('w state, 'w state) outcome"
  SetArchiveRestoreOptions :: "addr \<Rightarrow> RestoreOptions \<Rightarrow> 'w state \<Rightarrow> ('w state, 'w state) outcome"
  RestoreArchive :: "addr \<Rightarrow> 'w state \<Rightarrow> ('w state, 'w state) outcome"
  CloseArchive :: "addr \<Rightarrow> 'w state \<Rightarrow> ('w state, 'w state) outcome"

text \<open>
  Modelled from the spec: \<^verbatim>\<open>on_exit_close_archive\<close> is defined outside the sources
  at hand.  "Resources registered during the run (open archive handles, open
  connections, temp state)" are released by the Cleanup Registry, and the comment
  at the call speaks of "the cleanup function" that runs "if we terminate through
  exit_nicely()": the call registers that function for the archive.
\<close>

definition on_exit_close_archive :: "'w env \<Rightarrow> 'w driver \<Rightarrow> addr \<Rightarrow> 'w state \<Rightarrow> ('w state, 'w state) outcome" where
  "on_exit_close_archive env drv AH st = on_exit_nicely env (archive_close_connection drv) AH st"

text \<open>
  \<^verbatim>\<open>usage\<close>: its calls of \<^verbatim>\<open>write_msg\<close>, in order, each template passed through
  \<^verbatim>\<open>_()\<close> at the call.
\<close>

definition usage_lines :: "string \<Rightarrow> (string \<times> fmt_arg list) list" where
  "usage_lines progname_arg = [
      (''%s restores a PostgreSQL database from an archive created by pg_dump.\<newline>\<newline>'', [Str progname_arg]),
      (''Usage:\<newline>'', []),
      (''  %s [OPTION]... [FILE]\<newline>'', [Str progname_arg]),
      (''\<newline>General options:\<newline>'', []),
      (''  -d, --dbname=NAME        connect to database name\<newline>'', []),
      (''  -f, --file=FILENAME      output file name\<newline>'', []),
      (''  -F, --format=c|d|t       backup file format (should be automatic)\<newline>'', []),
      (''  -l, --list               print summarized TOC of the archive\<newline>'', []),
      (''  -v, --verbose            verbose mode\<newline>'', []),
      (''  --help                   show this help, then exit\<newline>'', []),
      (''  --version                output version information, then exit\<newline>'', []),
      (''\<newline>Options controlling the restore:\<newline>'', []),
      (''  -a, --data-only          restore only the data, no schema\<newline>'', []),
      (''  -c, --clean              clean (drop) database objects before recreating\<newline>'', []),
      (''  -C, --create             create the target database\<newline>'', []),
      (''  -e, --exit-on-error      exit on error, default is to continue\<newline>'', []),
      (''  -I, --index=NAME         restore named index\<newline>'', []),
      (''  -j, --jobs=NUM           use this many parallel jobs to restore\<newline>'', []),
      (''  -L, --use-list=FILENAME  use table of contents from this file for\<newline>                           selecting/ordering output\<newline>'', []),
      (''  -n, --schema=NAME        restore only objects in this schema\<newline>'', []),
      (''  -O, --no-owner           skip restoration of object ownership\<newline>'', []),
      (''  -P, --function=NAME(args)\<newline>                           restore named function\<newline>'', []),
      (''  -s, --schema-only        restore only the schema, no data\<newline>'', []),
      (''  -S, --superuser=NAME     superuser user name to use for disabling triggers\<newline>'', []),
      (''  -t, --table=NAME         restore named table\<newline>'', []),
      (''  -T, --trigger=NAME       restore named trigger\<newline>'', []),
      (''  -x, --no-privileges      skip restoration of access privileges (grant/revoke)\<newline>'', []),
      (''  -1, --single-transaction\<newline>                           restore as a single transaction\<newline>'', []),
      (''  --disable-triggers       disable triggers during data-only restore\<newline>'', []),
      (''  --no-data-for-failed-tables\<newline>                           do not restore data of tables that could not be\<newline>                           created\<newline>'', []),
      (''  --no-security-labels     do not restore security labels\<newline>'', []),
      (''  --no-tablespaces         do not restore tablespace assignments\<newline>'', []),
      (''  --use-set-session-authorization\<newline>                           use SET SESSION AUTHORIZATION commands instead of\<newline>                           ALTER OWNER commands to set ownership\<newline>'', []),
      (''\<newline>Connection options:\<newline>'', []),
      (''  -h, --host=HOSTNAME      database server host or socket directory\<newline>'', []),
      (''  -p, --port=PORT          database server port number\<newline>'', []),
      (''  -U, --username=NAME      connect as specified database user\<newline>'', []),
      (''  -w, --no-password        never prompt for password\<newline>'', []),
      (''  -W, --password           force password prompt (should happen automatically)\<newline>'', []),
      (''  --role=ROLENAME          do SET ROLE before restore\<newline>'', []),
      (''\<newline>If no input file name is supplied, then standard input is used.\<newline>\<newline>'', []),
      (''Report bugs to <pgsql-bugs@postgresql.org>.\<newline>'', [])]"

definition usage :: "'w env \<Rightarrow> string \<Rightarrow> 'w state \<Rightarrow> 'w state" where
  "usage env progname_arg st =
     fold (\<lambda>l s. write_msg env None (gettext env (fst l)) (snd l) s) (usage_lines progname_arg) st"

text \<open>
  The source reads \<^verbatim>\<open>optarg\<close> without a test where the option takes an argument
  (\<^verbatim>\<open>strlen\<close>, \<^verbatim>\<open>atoi\<close>, \<^verbatim>\<open>strcmp\<close>): \<^verbatim>\<open>getopt_long\<close> returns such an option
  with \<^verbatim>\<open>optarg\<close> set.  Reading through a \<^verbatim>\<open>NULL\<close> \<^verbatim>\<open>optarg\<close> is undefined in C;
  the model reads the empty string there.
\<close>

definition arg_text :: "string option \<Rightarrow> string" where
  "arg_text a = (case a of None \<Rightarrow> [] | Some s \<Rightarrow> s)"

definition set_flag :: "long_flag option \<Rightarrow> restore_statics \<Rightarrow> restore_statics" where
  "set_flag f ss =
     (case f of
        None \<Rightarrow> ss
      | Some Flag_disable_triggers \<Rightarrow> ss\<lparr>static_disable_triggers := 1\<rparr>
      | Some Flag_no_data_for_failed_tables \<Rightarrow> ss\<lparr>static_no_data_for_failed_tables := 1\<rparr>
      | Some Flag_no_tablespaces \<Rightarrow> ss\<lparr>static_outputNoTablespaces := 1\<rparr>
      | Some Flag_use_set_session_authorization \<Rightarrow> ss\<lparr>static_use_setsessauth := 1\<rparr>
      | Some Flag_no_security_labels \<Rightarrow> ss\<lparr>static_no_security_labels := 1\<rparr>)"

text \<open>
  The body of the \<^verbatim>\<open>switch (c)\<close>: the option structure and the local
  \<^verbatim>\<open>password\<close> go in and come out.  \<open>strdup_into\<close> is an assignment of
  \<^verbatim>\<open>pg_strdup(optarg)\<close> to a field.
\<close>

definition strdup_into :: "'w driver \<Rightarrow> (string option \<Rightarrow> RestoreOptions) \<Rightarrow> string option \<Rightarrow> 'w state
    \<Rightarrow> ((RestoreOptions \<times> string option) \<times> 'w state, 'w state) outcome" where
  "strdup_into drv assign password st =
     bnd (pg_strdup drv (optarg st) st) (\<lambda>r. Returns ((assign (fst r), password), snd r))"

definition restore_option :: "'w env \<Rightarrow> 'w driver \<Rightarrow> int \<Rightarrow> RestoreOptions \<times> string option \<Rightarrow> 'w state
    \<Rightarrow> ((RestoreOptions \<times> string option) \<times> 'w state, 'w state) outcome" where
  "restore_option env drv c lp st =
     (let opts = fst lp; password = snd lp in
      if c = of_char CHR ''a'' then Returns ((opts\<lparr>dataOnly := 1\<rparr>, password), st)
      else if c = of_char CHR ''c'' then Returns ((opts\<lparr>dropSchema := 1\<rparr>, password), st)
      else if c = of_char CHR ''C'' then Returns ((opts\<lparr>createDB := 1\<rparr>, password), st)
      else if c = of_char CHR ''d'' then strdup_into drv (\<lambda>s. opts\<lparr>dbname := s\<rparr>) password st
      else if c = of_char CHR ''e'' then Returns ((opts\<lparr>exit_on_error := True\<rparr>, password), st)
      else if c = of_char CHR ''f'' then strdup_into drv (\<lambda>s. opts\<lparr>filename := s\<rparr>) password st
      else if c = of_char CHR ''F'' then
        (if length (arg_text (optarg st)) \<noteq> 0
         then strdup_into drv (\<lambda>s. opts\<lparr>formatName := s\<rparr>) password st
         else Returns ((opts, password), st))
      else if c = of_char CHR ''h'' then
        (if length (arg_text (optarg st)) \<noteq> 0
         then strdup_into drv (\<lambda>s. opts\<lparr>pghost := s\<rparr>) password st
         else Returns ((opts, password), st))
      else if c = of_char CHR ''i'' then Returns ((opts, password), st)
      else if c = of_char CHR ''j'' then
        Returns ((opts\<lparr>number_of_jobs := atoi drv (arg_text (optarg st))\<rparr>, password), st)
      else if c = of_char CHR ''l'' then Returns ((opts\<lparr>tocSummary := 1\<rparr>, password), st)
      else if c = of_char CHR ''L'' then strdup_into drv (\<lambda>s. opts\<lparr>tocFile := s\<rparr>) password st
      else if c = of_char CHR ''n'' then strdup_into drv (\<lambda>s. opts\<lparr>schemaNames := s\<rparr>) password st
      else if c = of_char CHR ''O'' then Returns ((opts\<lparr>noOwner := 1\<rparr>, password), st)
      else if c = of_char CHR ''p'' then
        (if length (arg_text (optarg st)) \<noteq> 0
         then strdup_into drv (\<lambda>s. opts\<lparr>pgport := s\<rparr>) password st
         else Returns ((opts, password), st))
      else if c = of_char CHR ''R'' then Returns ((opts, password), st)
      else if c = of_char CHR ''P'' then
        strdup_into drv (\<lambda>s. opts\<lparr>selTypes := 1, selFunction := 1, functionNames := s\<rparr>) password st
      else if c = of_char CHR ''I'' then
        strdup_into drv (\<lambda>s. opts\<lparr>selTypes := 1, selIndex := 1, indexNames := s\<rparr>) password st
      else if c = of_char CHR ''T'' then
        strdup_into drv (\<lambda>s. opts\<lparr>selTypes := 1, selTrigger := 1, triggerNames := s\<rparr>) password st
      else if c = of_char CHR ''s'' then Returns ((opts\<lparr>schemaOnly := 1\<rparr>, password), st)
      else if c = of_char CHR ''S'' then
        (if length (arg_text (optarg st)) \<noteq> 0
         then strdup_into drv (\<lambda>s. opts\<lparr>superuser := s\<rparr>) password st
         else Returns ((opts, password), st))
      else if c = of_char CHR ''t'' then
        strdup_into drv (\<lambda>s. opts\<lparr>selTypes := 1, selTable := 1, tableNames := s\<rparr>) password st
      else if c = of_char CHR ''U'' then Returns ((opts\<lparr>username := optarg st\<rparr>, password), st)
      else if c = of_char CHR ''v'' then Returns ((opts\<lparr>verbose := 1\<rparr>, password), st)
      else if c = of_char CHR ''w'' then Returns ((opts\<lparr>promptPassword := TRI_NO\<rparr>, optarg st), st)
      else if c = of_char CHR ''W'' then Returns ((opts, password), st)
      else if c = of_char CHR ''x'' then Returns ((opts\<lparr>aclsSkip := 1\<rparr>, password), st)
      else if c = of_char CHR ''1'' then
        Returns ((opts\<lparr>single_txn := True, exit_on_error := True\<rparr>, password), st)
      else if c = 0 then Returns ((opts, password), st)
      else if c = 2 then Returns ((opts\<lparr>use_role := optarg st\<rparr>, password), st)
      else if c = 3 then
        bnd (set_dump_section env (arg_text (optarg st)) (dumpSections opts) st)
          (\<lambda>r. Returns ((opts\<lparr>dumpSections := fst r\<rparr>, password), snd r))
      else
        bnd (exit_nicely env 1
               (write_msg env None (gettext env ''Try \"%s --help\" for more information.\<newline>'')
                  [Str (c_str (progname st))] st))
          (\<lambda>st1. Returns ((opts, password), st1)))"

text \<open>
  The \<^verbatim>\<open>while\<close> loop over \<^verbatim>\<open>getopt_long\<close>: each call leaves its \<^verbatim>\<open>optarg\<close>,
  \<^verbatim>\<open>optind\<close> and flag behind; the call that returns -1 ends the loop.
\<close>

fun option_loop :: "'w env \<Rightarrow> 'w driver \<Rightarrow> getopt_step list \<Rightarrow> RestoreOptions \<times> string option \<Rightarrow> 'w state
    \<Rightarrow> ((RestoreOptions \<times> string option) \<times> 'w state, 'w state) outcome" where
  "option_loop env drv [] lp st = Returns (lp, st)"
| "option_loop env drv (g # gs) lp st =
     (let st1 = st\<lparr>optarg := step_optarg g, optind := step_optind g,
                    statics := set_flag (step_flag g) (statics st)\<rparr>
      in if ret g = - 1 then Returns (lp, st1)
         else bnd (restore_option env drv (ret g) lp st1) (\<lambda>r. option_loop env drv gs (fst r) (snd r)))"

text \<open>
  The block \<^verbatim>\<open>if (argc > 1) { ... }\<close> of \<^verbatim>\<open>pg_restore_internal\<close>, which answers
  \<^verbatim>\<open>--help\<close> and \<^verbatim>\<open>--version\<close> as first argument.
\<close>

definition help_or_version :: "'w env \<Rightarrow> 'w driver \<Rightarrow> string list \<Rightarrow> 'w state \<Rightarrow> ('w state, 'w state) outcome" where
  "help_or_version env drv argv st =
     (if length argv > 1
      then bnd (if argv ! 1 = ''--help'' \<or> argv ! 1 = ''-?''
                then exit_nicely env 1 (usage env (c_str (progname st)) st)
                else Returns st)
             (\<lambda>st. if argv ! 1 = ''--version'' \<or> argv ! 1 = ''-V''
                   then exit_nicely env 1
                          (write_msg env None ''pg_restore (PostgreSQL) %s'' [Str (PG_VERSION drv)] st)
                   else Returns st)
      else Returns st)"

text \<open>
  \<^verbatim>\<open>pg_restore_internal\<close>.  \<open>argv\<close> is the command line and \<^verbatim>\<open>argc\<close> its length.
  Wherever \<^verbatim>\<open>exit_nicely\<close> returns, the statements after the call run.  The local
  \<^verbatim>\<open>exit_code\<close> is computed and not used; the function returns 1.
\<close>

definition pg_restore_internal :: "'w env \<Rightarrow> 'w driver \<Rightarrow> string list \<Rightarrow> addr option \<Rightarrow> 'w state
    \<Rightarrow> (int \<times> 'w state, 'w state) outcome" where
  "pg_restore_internal env drv argv outMsgBuf st0 =
     (let argc = length argv;
          argv0 = (if 0 < argc then Some (argv ! 0) else None);
          st = st0\<lparr>optind := 1, optarg := None\<rparr>;
          st = st\<lparr>world := CleanDumpable env (world st)\<rparr>;
          st = st\<lparr>g_outMsgBuf := outMsgBuf\<rparr>;
          st = st\<lparr>world := set_pglocale_pgservice drv argv0 (world st)\<rparr>;
          st = st\<lparr>world := init_parallel_dump_utils drv (world st)\<rparr>;
          opts = (NewRestoreOptions drv)\<lparr>promptPassword := TRI_NO\<rparr>;
          st = st\<lparr>progname := Some (get_progname drv argv0)\<rparr>
      in
      bnd (help_or_version env drv argv st)
      (\<lambda>st.
      bnd (option_loop env drv (getopt_long drv argv) (opts, None) st)
      (\<lambda>r.
      let opts = fst (fst r); password = snd (fst r); st = snd r;
          inputFileSpec = (if optind st < argc then Some (argv ! optind st) else None);
          st = (if optind st < argc then st\<lparr>optind := optind st + 1\<rparr> else st)
      in
      bnd (if optind st < argc
           then exit_nicely env 1
                  (write_msg env None (gettext env ''Try \"%s --help\" for more information.\<newline>'')
                     [Str (c_str (progname st))]
                     (write_msg env None
                        (gettext env ''%s: too many command-line arguments (first is \"%s\")\<newline>'')
                        [Str (c_str (progname st)), Str (argv ! optind st)] st))
           else Returns st)
      (\<lambda>st.
      bnd (if dbname opts \<noteq> None
           then bnd (if filename opts \<noteq> None
                     then exit_nicely env 1
                            (write_msg env None (gettext env ''Try \"%s --help\" for more information.\<newline>'')
                               [Str (c_str (progname st))]
                               (write_msg env None
                                  (gettext env ''%s: options -d/--dbname and -f/--file cannot be used together\<newline>'')
                                  [Str (c_str (progname st))] st))
                     else Returns st)
                  (\<lambda>st. Returns (opts\<lparr>useDB := 1\<rparr>, st))
           else Returns (opts, st))
      (\<lambda>r.
      let opts = fst r; st = snd r in
      bnd (if single_txn opts \<and> number_of_jobs opts > 1
           then exit_nicely env 1
                  (write_msg env None
                     (gettext env ''%s: cannot specify both --single-transaction and multiple jobs\<newline>'')
                     [Str (c_str (progname st))] st)
           else Returns st)
      (\<lambda>st.
      let opts = opts\<lparr>disable_triggers := static_disable_triggers (statics st),
                      noDataForFailedTables := static_no_data_for_failed_tables (statics st),
                      noTablespace := static_outputNoTablespaces (statics st),
                      use_setsessauth := static_use_setsessauth (statics st),
                      no_security_labels := static_no_security_labels (statics st)\<rparr>
      in
      bnd (case formatName opts of
             None \<Rightarrow> Returns (opts, st)
           | Some name \<Rightarrow>
               (let first = (case name of [] \<Rightarrow> CHR 0x00 | ch # rest \<Rightarrow> ch) in
                if first = CHR ''c'' \<or> first = CHR ''C'' then Returns (opts\<lparr>format := archCustom\<rparr>, st)
                else if first = CHR ''d'' \<or> first = CHR ''D'' then Returns (opts\<lparr>format := archDirectory\<rparr>, st)
                else if first = CHR ''t'' \<or> first = CHR ''T'' then Returns (opts\<lparr>format := archTar\<rparr>, st)
                else bnd (exit_nicely env 1
                            (write_msg env None
                               ''unrecognized archive format \"%s\"; please specify \"c\", \"d\", or \"t\"\<newline>''
                               [Str name] st))
                       (\<lambda>st. Returns (opts, st))))
      (\<lambda>r.
      let opts = fst r; st = snd r in
      bnd (OpenArchive drv inputFileSpec (format opts) st)
      (\<lambda>r.
      let AH = fst r; st = snd r in
      bnd (on_exit_close_archive env drv AH st)
      (\<lambda>st.
      let st = st\<lparr>archives := (archives st)(AH := (archives st AH)\<lparr>AH_verbose := verbose opts\<rparr>)\<rparr>;
          st = st\<lparr>archives := (archives st)(AH := (archives st AH)\<lparr>savedPassword := password\<rparr>)\<rparr>;
          st = st\<lparr>archives := (archives st)(AH := (archives st AH)\<lparr>AH_exit_on_error := exit_on_error opts\<rparr>)\<rparr>
      in
      bnd (if tocFile opts \<noteq> None then SortTocFromFile drv AH opts st else Returns st)
      (\<lambda>st.
      bnd (if tocSummary opts \<noteq> 0
           then PrintTOCSummary drv AH opts st
           else bnd (SetArchiveRestoreOptions drv AH opts st) (RestoreArchive drv AH))
      (\<lambda>st.
      let st = (if n_errors (archives st AH) \<noteq> 0
                then write_msg env None (gettext env ''WARNING: errors ignored on restore: %d\<newline>'')
                       [Num (n_errors (archives st AH))] st
                else st);
          exit_code = (if n_errors (archives st AH) \<noteq> 0 then 1 else 0 :: int)
      in
      bnd (CloseArchive drv AH st)
      (\<lambda>st. Returns (1, st)))))))))))))"

text \<open>
  \<^verbatim>\<open>pg_restore\<close>: \<^verbatim>\<open>res\<close> starts at 1; the resumption point is set; when
  \<^verbatim>\<open>setjmp\<close> returns 0 the driver runs and its result is dropped; when control
  comes back through \<^verbatim>\<open>longjmp\<close> (\<^verbatim>\<open>setjmp\<close> then returns a non-zero value
  whatever value was passed) \<^verbatim>\<open>res\<close> becomes 0.  Either way \<^verbatim>\<open>g_jmpEnv\<close> is
  cleared and \<^verbatim>\<open>res\<close> returned.
\<close>

definition pg_restore :: "'w env \<Rightarrow> 'w driver \<Rightarrow> string list \<Rightarrow> addr option \<Rightarrow> 'w state \<Rightarrow> int \<times> 'w state" where
  "pg_restore env drv argv outMsgBuf st =
     (let res = 1;
          st1 = st\<lparr>g_jmpEnv := Some ()\<rparr>
      in case pg_restore_internal env drv argv outMsgBuf st1 of
           Returns r \<Rightarrow> (res, (snd r)\<lparr>g_jmpEnv := None\<rparr>)
         | Longjmp v st2 \<Rightarrow> (0, st2\<lparr>g_jmpEnv := None\<rparr>))"

section \<open>Callers and collaborators used to state the properties\<close>

text \<open>
  A caller that registers the entries of a list one after the other, each call
  following the return of the one before.
\<close>

fun registrations :: "'w env \<Rightarrow> (on_exit_nicely_callback \<times> addr) list \<Rightarrow> 'w state \<Rightarrow> ('w state, 'w state) outcome" where
  "registrations env [] st = Returns st"
| "registrations env (e # es) st = bnd (on_exit_nicely env (fst e) (snd e) st) (registrations env es)"

text \<open>
  Finalizers that return: the call of function pointer \<open>f\<close> with exit code
  \<open>code\<close> and context \<open>a\<close> comes back with the state \<open>cb f code a s\<close>, and has
  touched neither the registry's array nor the resumption point.  \<open>fire\<close> is the
  effect of calling the entries of a list in the order of the list.
\<close>

definition finalizers_return :: "'w env \<Rightarrow> (on_exit_nicely_callback \<Rightarrow> int \<Rightarrow> addr \<Rightarrow> 'w state \<Rightarrow> 'w state) \<Rightarrow> bool" where
  "finalizers_return env cb \<longleftrightarrow>
     (\<forall>f code a s. callback env f code a s = Returns (cb f code a s)
        \<and> on_exit_nicely_list (cb f code a s) = on_exit_nicely_list s
        \<and> g_jmpEnv (cb f code a s) = g_jmpEnv s)"

definition fire :: "(on_exit_nicely_callback \<Rightarrow> int \<Rightarrow> addr \<Rightarrow> 's \<Rightarrow> 's) \<Rightarrow> int \<Rightarrow> (on_exit_nicely_callback \<times> addr) list \<Rightarrow> 's \<Rightarrow> 's" where
  "fire cb code es st = fold (\<lambda>e s. cb (fst e) code (snd e) s) es st"

text \<open>
  The text one call of \<^verbatim>\<open>vwrite_msg\<close> contributes: title, then message.
\<close>

definition diagnostic :: "'w env \<Rightarrow> string option \<Rightarrow> string option \<Rightarrow> string \<Rightarrow> fmt_arg list \<Rightarrow> string" where
  "diagnostic env prog modulename fmt ap =
     (case modulename of
        Some m \<Rightarrow> c_str prog @ '': ['' @ gettext env m @ ''] ''
      | None \<Rightarrow> c_str prog @ '': '') @ vsnprintf env (gettext env fmt) ap"

text \<open>
  A formatter for the conversions the callers in the sources use, \<^verbatim>\<open>%s\<close>,
  \<^verbatim>\<open>%d\<close> and \<^verbatim>\<open>%%\<close>; any other character after \<^verbatim>\<open>%\<close> and a conversion
  whose argument is missing or of the other kind are undefined in C and are
  dropped here.
\<close>

fun dec :: "nat \<Rightarrow> string" where
  "dec n = (if n < 10 then [''0123456789'' ! n] else dec (n div 10) @ [''0123456789'' ! (n mod 10)])"

declare dec.simps [simp del]

definition dec_int :: "int \<Rightarrow> string" where
  "dec_int i = (if i < 0 then CHR ''-'' # dec (nat (- i)) else dec (nat i))"

fun c_format :: "string \<Rightarrow> fmt_arg list \<Rightarrow> string" where
  "c_format [] args = []"
| "c_format [c] args = (if c = CHR ''%'' then [] else [c])"
| "c_format (c # d # cs) args =
     (if c \<noteq> CHR ''%'' then c # c_format (d # cs) args
      else if d = CHR ''%'' then CHR ''%'' # c_format cs args
      else if d = CHR ''s'' then
        (case args of Str s # rest \<Rightarrow> s @ c_format cs rest | _ \<Rightarrow> c_format cs (tl args))
      else if d = CHR ''d'' then
        (case args of Num i # rest \<Rightarrow> dec_int i @ c_format cs rest | _ \<Rightarrow> c_format cs (tl args))
      else c_format cs args)"

text \<open>
  A host for concrete runs: no message catalogue, the formatter above, an allocator
  that grants every request, and finalizers that append their function pointer,
  the exit code and their context to a log kept as the world.
\<close>

type_synonym firing_log = "(on_exit_nicely_callback \<times> int \<times> addr) list"

definition log_firing :: "on_exit_nicely_callback \<Rightarrow> int \<Rightarrow> addr \<Rightarrow> firing_log state \<Rightarrow> firing_log state" where
  "log_firing f code a s = s\<lparr>world := world s @ [(f, code, a)]\<rparr>"

definition host_env :: "firing_log env" where
  "host_env = \<lparr>gettext = (\<lambda>s. s), vsnprintf = c_format, heap_grants = (\<lambda>h r. True),
      callback = (\<lambda>f code a s. Returns (log_firing f code a s)), CleanDumpable = (\<lambda>w. w),
      DUMP_PRE_DATA = 1, DUMP_DATA = 2, DUMP_POST_DATA = 4, DUMP_UNSECTIONED = 255\<rparr>"

definition start_state :: "firing_log state" where
  "start_state = \<lparr>g_outMsgBuf = None, g_jmpEnv = None, progname = None,
      on_exit_nicely_list = replicate 20 (0, 0), on_exit_nicely_index = 0,
      store = (\<lambda>a. None), heap_reqs = [], optind = 1, optarg = None,
      statics = \<lparr>static_disable_triggers = 0, static_no_data_for_failed_tables = 0,
        static_outputNoTablespaces = 0, static_use_setsessauth = 0, static_no_security_labels = 0\<rparr>,
      archives = (\<lambda>a. \<lparr>AH_verbose = 0, AH_exit_on_error = False, n_errors = 0, savedPassword = None\<rparr>),
      world = []\<rparr>"

text \<open>
  A run with a resumption point in place and three finalizers A, B, C (function
  pointers 1, 2, 3 with contexts 10, 20, 30) to register.
\<close>

definition armed_state :: "firing_log state" where
  "armed_state = start_state\<lparr>g_jmpEnv := Some (), progname := Some ''tool''\<rparr>"

definition abc :: "(on_exit_nicely_callback \<times> addr) list" where
  "abc = [(1, 10), (2, 20), (3, 30)]"

definition abc_registered :: "firing_log state" where
  "abc_registered = armed_state\<lparr>on_exit_nicely_list := abc @ replicate 17 (0, 0),
      on_exit_nicely_index := 3\<rparr>"

text \<open>
  Did the call come back to its caller, and the state it ended with either way.
\<close>

fun returned :: "('a, 's) outcome \<Rightarrow> bool" where
  "returned (Returns x) = True"
| "returned (Longjmp v s) = False"

fun final_state :: "('s, 's) outcome \<Rightarrow> 's" where
  "final_state (Returns s) = s"
| "final_state (Longjmp v s) = s"

text \<open>
  The request \<^verbatim>\<open>vwrite_msg\<close> puts to the allocator for a slot holding \<open>buf\<close> and a
  text to add, and the characters a slot holds.
\<close>

definition buffer_request :: "string option \<Rightarrow> string \<Rightarrow> alloc_req" where
  "buffer_request buf text =
     (case buf of None \<Rightarrow> Malloc (length text + 1) | Some b \<Rightarrow> Realloc (length b + length text + 1))"

definition held :: "string option \<Rightarrow> string" where
  "held buf = (case buf of None \<Rightarrow> [] | Some b \<Rightarrow> b)"

text \<open>
  A finalizer that meets a fatal condition the first time it is fired: it logs
  the firing and, when that is the first line of the log, calls
  \<^verbatim>\<open>exit_horribly\<close>.  In the nested call the finalizers are those of \<open>host_env\<close>;
  \<open>reentrant_callback\<close> below shows that they are the same code.
\<close>

definition reentrant_env :: "firing_log env" where
  "reentrant_env = host_env\<lparr>callback :=
     (\<lambda>f code a s. let s1 = log_firing f code a s
                    in if length (world s1) = 1
                       then exit_horribly host_env None ''could not close archive\<newline>'' [] s1
                       else Returns s1)\<rparr>"

definition one_registered :: "firing_log state" where
  "one_registered = armed_state\<lparr>on_exit_nicely_list := (on_exit_nicely_list armed_state)[0 := (7, 70)],
      on_exit_nicely_index := 1\<rparr>"

text \<open>
  A registry that is full, in a process with no resumption point in place.
\<close>

definition full_state :: "firing_log state" where
  "full_state = start_state\<lparr>on_exit_nicely_list := replicate 20 (5, 50), on_exit_nicely_index := 20,
      g_outMsgBuf := Some 0, progname := Some ''tool''\<rparr>"

definition abc_unarmed :: "firing_log state" where
  "abc_unarmed = abc_registered\<lparr>g_jmpEnv := None\<rparr>"

definition full_armed :: "firing_log state" where
  "full_armed = full_state\<lparr>g_jmpEnv := Some ()\<rparr>"

text \<open>
  A caller that emits a list of diagnostics (module name, template, arguments)
  one after the other.
\<close>

fun emits :: "'w env \<Rightarrow> (string option \<times> string \<times> fmt_arg list) list \<Rightarrow> 'w state \<Rightarrow> 'w state" where
  "emits env [] st = st"
| "emits env (c # cs) st = emits env cs (vwrite_msg env (fst c) (fst (snd c)) (snd (snd c)) st)"

text \<open>
  A process whose capture slot is the host variable at address 0, still
  \<^verbatim>\<open>NULL\<close>, and a host whose allocator refuses the first request it gets.
\<close>

definition slot_state :: "firing_log state" where
  "slot_state = start_state\<lparr>g_outMsgBuf := Some 0, progname := Some ''tool''\<rparr>"

definition stingy_env :: "firing_log env" where
  "stingy_env = host_env\<lparr>heap_grants := (\<lambda>h r. h \<noteq> [])\<rparr>"

text \<open>
  An archiver for concrete runs: command lines without options, an archive at
  address 1 that opens, and a restore that meets a given number of non-fatal
  errors, each reported through the message sink and counted in \<^verbatim>\<open>n_errors\<close>.
\<close>

definition blank_options :: RestoreOptions where
  "blank_options = \<lparr>createDB = 0, noOwner = 0, noTablespace = 0, disable_triggers = 0,
      use_setsessauth = 0, superuser = None, use_role = None, dataOnly = 0, dropSchema = 0,
      filename = None, schemaOnly = 0, dumpSections = 255, verbose = 0, aclsSkip = 0,
      tocSummary = 0, tocFile = None, format = archUnknown, formatName = None, selTypes = 0,
      selIndex = 0, selFunction = 0, selTrigger = 0, selTable = 0, indexNames = None,
      functionNames = None, tableNames = None, schemaNames = None, triggerNames = None,
      useDB = 0, dbname = None, pgport = None, pghost = None, username = None,
      noDataForFailedTables = 0, promptPassword = TRI_DEFAULT, exit_on_error = False,
      no_security_labels = 0, single_txn = False, number_of_jobs = 0\<rparr>"

fun report_errors :: "nat \<Rightarrow> addr \<Rightarrow> firing_log state \<Rightarrow> firing_log state" where
  "report_errors 0 AH st = st"
| "report_errors (Suc k) AH st =
     report_errors k AH
       ((write_msg host_env (Some ''archiver'') ''could not execute query\<newline>'' [] st)
          \<lparr>archives := (archives st)(AH := (archives st AH)\<lparr>n_errors := n_errors (archives st AH) + 1\<rparr>)\<rparr>)"

definition host_drv :: "nat \<Rightarrow> firing_log driver" where
  "host_drv n = \<lparr>PG_VERSION = ''9.3'', get_progname = arg_text,
      set_pglocale_pgservice = (\<lambda>a w. w), init_parallel_dump_utils = (\<lambda>w. w),
      NewRestoreOptions = blank_options,
      getopt_long = (\<lambda>argv. [\<lparr>ret = - 1, step_optarg = None, step_optind = 1, step_flag = None\<rparr>]),
      pg_strdup = (\<lambda>a st. Returns (a, st)), atoi = (\<lambda>s. 0),
      OpenArchive = (\<lambda>file fmt st. Returns (1, st)),
      archive_close_connection = 8,
      SortTocFromFile = (\<lambda>AH opts st. Returns st),
      PrintTOCSummary = (\<lambda>AH opts st. Returns st),
      SetArchiveRestoreOptions = (\<lambda>AH opts st. Returns st),
      RestoreArchive = (\<lambda>AH st. Returns (report_errors n AH st)),
      CloseArchive = (\<lambda>AH st. Returns st)\<rparr>"

definition plain_argv :: "string list" where
  "plain_argv = [''pg_restore'', ''db.dump'']"

definition version_argv :: "string list" where
  "version_argv = [''pg_restore'', ''--version'']"

section \<open>Properties\<close>

subsection \<open>Sequencing\<close>

lemma bnd_Returns [simp]: "bnd (Returns x) k = k x"
  by (simp add: bnd_def)

lemma bnd_Longjmp [simp]: "bnd (Longjmp v s) k = Longjmp v s"
  by (simp add: bnd_def)

lemma bnd_weak_cong: "m = m' \<Longrightarrow> bnd m k = bnd m' k"
  by simp

subsection \<open>The loop of the termination primitive\<close>

lemma fire_Nil [simp]: "fire cb code [] st = st"
  by (simp add: fire_def)

lemma fire_Cons [simp]: "fire cb code (e # es) st = fire cb code es (cb (fst e) code (snd e) st)"
  by (simp add: fire_def)

lemma fire_preserves:
  assumes "\<And>f a s. g (cb f code a s) = g s"
  shows "g (fire cb code es st) = g st"
  using assms by (induction es arbitrary: st) simp_all

lemma fire_list_unchanged:
  assumes "finalizers_return env cb"
  shows "on_exit_nicely_list (fire cb code es st) = on_exit_nicely_list st"
  using assms by (intro fire_preserves) (simp add: finalizers_return_def)

lemma fire_jmpEnv_unchanged:
  assumes "finalizers_return env cb"
  shows "g_jmpEnv (fire cb code es st) = g_jmpEnv st"
  using assms by (intro fire_preserves) (simp add: finalizers_return_def)

lemma exit_loop_fire:
  assumes "finalizers_return env cb" and "n \<le> length (on_exit_nicely_list st)"
  shows "exit_loop env code n st = Returns (fire cb code (rev (take n (on_exit_nicely_list st))) st)"
  using assms(2)
proof (induction n arbitrary: st)
  case 0
  then show ?case by simp
next
  case (Suc i)
  let ?e = "on_exit_nicely_list st ! i"
  let ?s = "cb (fst ?e) code (snd ?e) st"
  from assms(1) have call: "callback env (fst ?e) code (snd ?e) st = Returns ?s"
    and same: "on_exit_nicely_list ?s = on_exit_nicely_list st"
    by (simp_all add: finalizers_return_def)
  from Suc.prems have "i < length (on_exit_nicely_list st)" by simp
  then have split: "take (Suc i) (on_exit_nicely_list st) = take i (on_exit_nicely_list st) @ [?e]"
    by (rule take_Suc_conv_app_nth)
  from Suc.prems same have "i \<le> length (on_exit_nicely_list ?s)" by simp
  then have "exit_loop env code i ?s = Returns (fire cb code (rev (take i (on_exit_nicely_list ?s))) ?s)"
    by (rule Suc.IH)
  with call same split show ?case by simp
qed

lemma exit_nicely_fire:
  assumes "finalizers_return env cb"
    and "on_exit_nicely_index st \<le> length (on_exit_nicely_list st)"
  shows "exit_nicely env code st =
     (let st1 = fire cb code (rev (take (on_exit_nicely_index st) (on_exit_nicely_list st))) st;
          st3 = st1\<lparr>on_exit_nicely_index := 0, world := CleanDumpable env (world st1)\<rparr>
      in if code \<noteq> 0 \<and> g_jmpEnv st \<noteq> None then Longjmp 1 st3 else Returns st3)"
proof -
  from assms(1) have "g_jmpEnv (fire cb code (rev (take (on_exit_nicely_index st) (on_exit_nicely_list st))) st) = g_jmpEnv st"
    by (rule fire_jmpEnv_unchanged)
  then show ?thesis
    by (simp add: exit_nicely_def exit_loop_fire [OF assms] Let_def)
qed

subsection \<open>Registration\<close>

lemma on_exit_nicely_below:
  assumes "on_exit_nicely_index st < MAX_ON_EXIT_NICELY"
  shows "on_exit_nicely env f a st =
     Returns (st\<lparr>on_exit_nicely_list := (on_exit_nicely_list st)[on_exit_nicely_index st := (f, a)],
                 on_exit_nicely_index := on_exit_nicely_index st + 1\<rparr>)"
  using assms by (simp add: on_exit_nicely_def)

lemma registrations_below:
  assumes "on_exit_nicely_index st + length es \<le> MAX_ON_EXIT_NICELY"
    and "length (on_exit_nicely_list st) = MAX_ON_EXIT_NICELY"
  shows "registrations env es st =
     Returns (st\<lparr>on_exit_nicely_list :=
                   take (on_exit_nicely_index st) (on_exit_nicely_list st) @ es
                     @ drop (on_exit_nicely_index st + length es) (on_exit_nicely_list st),
                 on_exit_nicely_index := on_exit_nicely_index st + length es\<rparr>)"
  using assms
proof (induction es arbitrary: st)
  case Nil
  then show ?case by simp
next
  case (Cons e es)
  let ?i = "on_exit_nicely_index st"
  let ?xs = "on_exit_nicely_list st"
  let ?s = "st\<lparr>on_exit_nicely_list := ?xs[?i := e], on_exit_nicely_index := ?i + 1\<rparr>"
  from Cons.prems have below: "?i < MAX_ON_EXIT_NICELY" and inside: "?i < length ?xs"
    by simp_all
  have step: "on_exit_nicely env (fst e) (snd e) st = Returns ?s"
    using on_exit_nicely_below [OF below, of env "fst e" "snd e"] by simp
  have "registrations env es ?s =
     Returns (?s\<lparr>on_exit_nicely_list :=
                   take (on_exit_nicely_index ?s) (on_exit_nicely_list ?s) @ es
                     @ drop (on_exit_nicely_index ?s + length es) (on_exit_nicely_list ?s),
                 on_exit_nicely_index := on_exit_nicely_index ?s + length es\<rparr>)"
    using Cons.prems by (intro Cons.IH) simp_all
  moreover have "take (?i + 1) (?xs[?i := e]) = take ?i ?xs @ [e]"
    using inside by (simp add: take_Suc_conv_app_nth)
  moreover have "drop (?i + 1 + length es) (?xs[?i := e]) = drop (?i + 1 + length es) ?xs"
    by simp
  ultimately show ?case
    using step by (simp add: add.commute add.left_commute)
qed

subsection \<open>The message sink without a capture slot\<close>

text \<open>
  C8.  A call of \<^verbatim>\<open>vwrite_msg\<close> made while \<^verbatim>\<open>g_outMsgBuf\<close> is \<^verbatim>\<open>NULL\<close> returns
  the state it was given: no allocation request is made, nothing is recorded,
  the slot stays \<^verbatim>\<open>NULL\<close>, and the call is an ordinary return.
\<close>

theorem vwrite_msg_no_slot:
  "g_outMsgBuf st = None \<Longrightarrow> vwrite_msg env modulename fmt ap st = st"
  by (simp add: vwrite_msg_def)

theorem vwrite_msg_no_slot_witness:
  "g_outMsgBuf start_state = None
   \<and> vwrite_msg host_env (Some ''archiver'') ''could not open input file: %s'' [Str ''x.dump''] start_state
       = start_state"
proof -
  have none: "g_outMsgBuf start_state = None"
    by (simp add: start_state_def)
  show ?thesis
    using none vwrite_msg_no_slot [OF none] by simp
qed


subsection \<open>Firing order\<close>

lemma finalizers_return_host: "finalizers_return host_env log_firing"
  by (simp add: finalizers_return_def host_env_def log_firing_def)

text \<open>
  C2.  Starting from an empty registry, a sequence of N registrations
  \<open>e1, ..., eN\<close> within the capacity returns with the count at N.  One call of
  \<^verbatim>\<open>exit_nicely\<close> then has the effect of calling \<open>eN, ..., e1\<close> in this order, each
  once, with the exit code and the context it was registered with (finalizers
  that return), and the state it ends with, by return or by transfer, has the
  count zero.
\<close>

theorem exit_nicely_reverse_of_registration:
  assumes "finalizers_return env cb"
    and "on_exit_nicely_index st0 = 0"
    and "length (on_exit_nicely_list st0) = MAX_ON_EXIT_NICELY"
    and "length es \<le> MAX_ON_EXIT_NICELY"
  shows "\<exists>st fin. registrations env es st0 = Returns st
           \<and> on_exit_nicely_index st = length es
           \<and> fin = (fire cb code (rev es) st)
                     \<lparr>on_exit_nicely_index := 0,
                      world := CleanDumpable env (world (fire cb code (rev es) st))\<rparr>
           \<and> exit_nicely env code st =
               (if code \<noteq> 0 \<and> g_jmpEnv st \<noteq> None then Longjmp 1 fin else Returns fin)
           \<and> on_exit_nicely_index fin = 0"
proof -
  let ?st = "st0\<lparr>on_exit_nicely_list := es @ drop (length es) (on_exit_nicely_list st0),
                   on_exit_nicely_index := length es\<rparr>"
  have reg: "registrations env es st0 = Returns ?st"
    using registrations_below [of st0 es env] assms(2-4) by simp
  have fits: "on_exit_nicely_index ?st \<le> length (on_exit_nicely_list ?st)"
    using assms(3,4) by simp
  have taken: "take (on_exit_nicely_index ?st) (on_exit_nicely_list ?st) = es"
    by simp
  show ?thesis
    using reg exit_nicely_fire [OF assms(1) fits, of code] taken
    by (simp add: Let_def)
qed

theorem exit_nicely_reverse_of_registration_witness:
  "finalizers_return host_env log_firing
   \<and> on_exit_nicely_index armed_state = 0
   \<and> length (on_exit_nicely_list armed_state) = MAX_ON_EXIT_NICELY
   \<and> length abc \<le> MAX_ON_EXIT_NICELY
   \<and> (\<exists>st fin. registrations host_env abc armed_state = Returns st
         \<and> on_exit_nicely_index st = 3
         \<and> exit_nicely host_env 1 st = Longjmp 1 fin
         \<and> world fin = [(3, 1, 30), (2, 1, 20), (1, 1, 10)]
         \<and> on_exit_nicely_index fin = 0)"
proof -
  have h2: "on_exit_nicely_index armed_state = 0"
    by (simp add: armed_state_def start_state_def)
  have h3: "length (on_exit_nicely_list armed_state) = MAX_ON_EXIT_NICELY"
    by (simp add: armed_state_def start_state_def MAX_ON_EXIT_NICELY_def)
  have h4: "length abc \<le> MAX_ON_EXIT_NICELY"
    by (simp add: abc_def MAX_ON_EXIT_NICELY_def)
  obtain st fin where reg: "registrations host_env abc armed_state = Returns st"
    and idx: "on_exit_nicely_index st = length abc"
    and fin: "fin = (fire log_firing 1 (rev abc) st)
                     \<lparr>on_exit_nicely_index := 0,
                      world := CleanDumpable host_env (world (fire log_firing 1 (rev abc) st))\<rparr>"
    and ex: "exit_nicely host_env 1 st =
               (if (1::int) \<noteq> 0 \<and> g_jmpEnv st \<noteq> None then Longjmp 1 fin else Returns fin)"
    and zero: "on_exit_nicely_index fin = 0"
    using exit_nicely_reverse_of_registration [OF finalizers_return_host h2 h3 h4, of 1] by blast
  have "registrations host_env abc armed_state =
          Returns (armed_state\<lparr>on_exit_nicely_list := (on_exit_nicely_list armed_state)[0 := (1, 10), 1 := (2, 20), 2 := (3, 30)],
                              on_exit_nicely_index := 3\<rparr>)"
    by (simp add: abc_def on_exit_nicely_def armed_state_def start_state_def MAX_ON_EXIT_NICELY_def numeral_2_eq_2)
  with reg have st: "st = armed_state\<lparr>on_exit_nicely_list := (on_exit_nicely_list armed_state)[0 := (1, 10), 1 := (2, 20), 2 := (3, 30)],
                              on_exit_nicely_index := 3\<rparr>"
    by simp
  have active: "g_jmpEnv st \<noteq> None" and empty: "world st = []"
    by (simp_all add: st armed_state_def start_state_def)
  have "world fin = [(3, 1, 30), (2, 1, 20), (1, 1, 10)]"
    by (simp add: fin abc_def log_firing_def host_env_def empty)
  with reg idx ex zero active finalizers_return_host h2 h3 h4 show ?thesis
    by (simp add: abc_def)
qed


subsection \<open>What the message sink leaves alone\<close>

lemma vwrite_msg_frame [simp]:
  "on_exit_nicely_list (vwrite_msg env m fmt ap st) = on_exit_nicely_list st"
  "on_exit_nicely_index (vwrite_msg env m fmt ap st) = on_exit_nicely_index st"
  "g_jmpEnv (vwrite_msg env m fmt ap st) = g_jmpEnv st"
  "g_outMsgBuf (vwrite_msg env m fmt ap st) = g_outMsgBuf st"
  "progname (vwrite_msg env m fmt ap st) = progname st"
  "world (vwrite_msg env m fmt ap st) = world st"
  "archives (vwrite_msg env m fmt ap st) = archives st"
  "optind (vwrite_msg env m fmt ap st) = optind st"
  "optarg (vwrite_msg env m fmt ap st) = optarg st"
  "statics (vwrite_msg env m fmt ap st) = statics st"
  by (simp_all add: vwrite_msg_def Let_def split: option.splits)

lemma vwrite_msg_slot:
  assumes "g_outMsgBuf st = Some slot"
  shows "vwrite_msg env m fmt ap st =
     (let text = diagnostic env (progname st) m fmt ap;
          req = buffer_request (store st slot) text;
          st1 = st\<lparr>heap_reqs := heap_reqs st @ [req]\<rparr>
      in if heap_grants env (heap_reqs st) req
         then st1\<lparr>store := (store st)(slot := Some (held (store st slot) @ text))\<rparr>
         else st1)"
  using assms
  by (cases "store st slot"; cases m)
     (simp_all add: vwrite_msg_def diagnostic_def buffer_request_def held_def Let_def add.assoc)

subsection \<open>The transfer to the resumption point\<close>

text \<open>
  C5.  A call \<^verbatim>\<open>exit_nicely(code)\<close> whose finalizers return first calls every
  registered finalizer, most recent first, and resets the count; then it leaves
  through \<^verbatim>\<open>longjmp\<close> with the value 1 exactly when \<open>code\<close> is non-zero and a
  resumption point is in place, and returns otherwise.  The state carried to the
  resumption point is the one the last finalizer and the reset left.
\<close>

theorem exit_nicely_then_transfer:
  assumes "finalizers_return env cb"
    and "on_exit_nicely_index st \<le> length (on_exit_nicely_list st)"
  shows "\<exists>fired fin.
           fired = fire cb code (rev (take (on_exit_nicely_index st) (on_exit_nicely_list st))) st
         \<and> fin = fired\<lparr>on_exit_nicely_index := 0, world := CleanDumpable env (world fired)\<rparr>
         \<and> exit_nicely env code st =
             (if code \<noteq> 0 \<and> g_jmpEnv st \<noteq> None then Longjmp 1 fin else Returns fin)
         \<and> (returned (exit_nicely env code st) \<longleftrightarrow> code = 0 \<or> g_jmpEnv st = None)"
  using exit_nicely_fire [OF assms, of code]
  by (cases "g_jmpEnv st") (simp_all add: Let_def)

theorem exit_nicely_then_transfer_witness:
  "finalizers_return host_env log_firing
   \<and> on_exit_nicely_index abc_registered \<le> length (on_exit_nicely_list abc_registered)
   \<and> exit_nicely host_env 1 abc_registered =
       Longjmp 1 (abc_registered\<lparr>on_exit_nicely_index := 0, world := [(3, 1, 30), (2, 1, 20), (1, 1, 10)]\<rparr>)
   \<and> exit_nicely host_env 0 abc_registered =
       Returns (abc_registered\<lparr>on_exit_nicely_index := 0, world := [(3, 0, 30), (2, 0, 20), (1, 0, 10)]\<rparr>)
   \<and> exit_nicely host_env 1 (abc_registered\<lparr>g_jmpEnv := None\<rparr>) =
       Returns (abc_registered\<lparr>g_jmpEnv := None, on_exit_nicely_index := 0,
                               world := [(3, 1, 30), (2, 1, 20), (1, 1, 10)]\<rparr>)"
proof -
  have fits: "on_exit_nicely_index abc_registered \<le> length (on_exit_nicely_list abc_registered)"
    by (simp add: abc_registered_def abc_def)
  have fits': "on_exit_nicely_index (abc_registered\<lparr>g_jmpEnv := None\<rparr>)
                 \<le> length (on_exit_nicely_list (abc_registered\<lparr>g_jmpEnv := None\<rparr>))"
    by (simp add: abc_registered_def abc_def)
  have 1: "exit_nicely host_env 1 abc_registered =
       Longjmp 1 (abc_registered\<lparr>on_exit_nicely_index := 0, world := [(3, 1, 30), (2, 1, 20), (1, 1, 10)]\<rparr>)"
    using exit_nicely_then_transfer [OF finalizers_return_host fits, of 1]
    by (simp add: abc_registered_def abc_def armed_state_def start_state_def log_firing_def host_env_def)
  have 2: "exit_nicely host_env 0 abc_registered =
       Returns (abc_registered\<lparr>on_exit_nicely_index := 0, world := [(3, 0, 30), (2, 0, 20), (1, 0, 10)]\<rparr>)"
    using exit_nicely_then_transfer [OF finalizers_return_host fits, of 0]
    by (simp add: abc_registered_def abc_def armed_state_def start_state_def log_firing_def host_env_def)
  have 3: "exit_nicely host_env 1 (abc_registered\<lparr>g_jmpEnv := None\<rparr>) =
       Returns (abc_registered\<lparr>g_jmpEnv := None, on_exit_nicely_index := 0,
                               world := [(3, 1, 30), (2, 1, 20), (1, 1, 10)]\<rparr>)"
    using exit_nicely_then_transfer [OF finalizers_return_host fits', of 1]
    by (simp add: abc_registered_def abc_def armed_state_def start_state_def log_firing_def host_env_def)
  from finalizers_return_host fits 1 2 3 show ?thesis
    by simp
qed


subsection \<open>What the caller sees of the termination primitive\<close>

lemma exit_nicely_host_unarmed:
  "exit_nicely host_env 1 abc_unarmed =
     Returns (abc_unarmed\<lparr>on_exit_nicely_index := 0, world := [(3, 1, 30), (2, 1, 20), (1, 1, 10)]\<rparr>)"
proof -
  have "on_exit_nicely_index abc_unarmed \<le> length (on_exit_nicely_list abc_unarmed)"
    by (simp add: abc_unarmed_def abc_registered_def abc_def)
  from exit_nicely_fire [OF finalizers_return_host this, of 1] show ?thesis
    by (simp add: abc_unarmed_def abc_registered_def abc_def armed_state_def start_state_def
          log_firing_def host_env_def)
qed

text \<open>
  C7, as the code has it.  With finalizers that return, what the caller has written
  after a call of \<^verbatim>\<open>exit_nicely\<close> (the continuation \<open>k\<close>) does not run when the
  code is non-zero and a resumption point is in place: control goes to the
  resumption point.  When the code is zero or no resumption point is in place,
  \<^verbatim>\<open>exit_nicely\<close> comes back and the caller carries on with \<open>k\<close>.  So
  \<^verbatim>\<open>set_dump_section\<close>, given a name it does not know, does not come back to its
  caller while a resumption point is in place.
\<close>

theorem exit_nicely_caller_goes_on_iff_returned:
  assumes "finalizers_return env cb"
    and "on_exit_nicely_index st \<le> length (on_exit_nicely_list st)"
  shows "(\<exists>fired fin.
            fired = fire cb code (rev (take (on_exit_nicely_index st) (on_exit_nicely_list st))) st
          \<and> fin = fired\<lparr>on_exit_nicely_index := 0, world := CleanDumpable env (world fired)\<rparr>
          \<and> bnd (exit_nicely env code st) k =
              (if code \<noteq> 0 \<and> g_jmpEnv st \<noteq> None then Longjmp 1 fin else k fin))
       \<and> (arg \<noteq> ''pre-data'' \<and> arg \<noteq> ''data'' \<and> arg \<noteq> ''post-data'' \<and> g_jmpEnv st \<noteq> None
            \<longrightarrow> \<not> returned (set_dump_section env arg ds st))"
proof -
  let ?st2 = "write_msg env None (gettext env ''Try \"%s --help\" for more information.\<newline>'')
                [Str (c_str (progname (write_msg env None
                   (gettext env ''%s: unrecognized section name: \"%s\"\<newline>'')
                   [Str (c_str (progname st)), Str arg] st)))]
                (write_msg env None (gettext env ''%s: unrecognized section name: \"%s\"\<newline>'')
                   [Str (c_str (progname st)), Str arg] st)"
  have fits2: "on_exit_nicely_index ?st2 \<le> length (on_exit_nicely_list ?st2)"
    using assms(2) by (simp add: write_msg_def)
  have armed2: "g_jmpEnv ?st2 = g_jmpEnv st"
    by (simp add: write_msg_def)
  have "\<not> returned (exit_nicely env 1 ?st2)" if "g_jmpEnv st \<noteq> None"
    using exit_nicely_fire [OF assms(1) fits2, of 1] armed2 that by (simp add: Let_def)
  then have "\<not> returned (bnd (exit_nicely env 1 ?st2) k')" if "g_jmpEnv st \<noteq> None" for k' :: "'a state \<Rightarrow> (int \<times> 'a state, 'a state) outcome"
    using that by (cases "exit_nicely env 1 ?st2") simp_all
  then have unknown: "arg \<noteq> ''pre-data'' \<and> arg \<noteq> ''data'' \<and> arg \<noteq> ''post-data'' \<and> g_jmpEnv st \<noteq> None
            \<longrightarrow> \<not> returned (set_dump_section env arg ds st)"
    by (simp add: set_dump_section_def Let_def)
  show ?thesis
    using exit_nicely_fire [OF assms, of code] unknown by (simp add: Let_def)
qed

theorem exit_nicely_caller_goes_on_iff_returned_witness:
  "finalizers_return host_env log_firing
   \<and> on_exit_nicely_index abc_registered \<le> length (on_exit_nicely_list abc_registered)
   \<and> bnd (exit_nicely host_env 1 abc_registered) (\<lambda>s. Returns (s\<lparr>progname := Some ''went on''\<rparr>)) =
       Longjmp 1 (abc_registered\<lparr>on_exit_nicely_index := 0, world := [(3, 1, 30), (2, 1, 20), (1, 1, 10)]\<rparr>)
   \<and> bnd (exit_nicely host_env 0 abc_registered) (\<lambda>s. Returns (s\<lparr>progname := Some ''went on''\<rparr>)) =
       Returns (abc_registered\<lparr>on_exit_nicely_index := 0, world := [(3, 0, 30), (2, 0, 20), (1, 0, 10)],
                               progname := Some ''went on''\<rparr>)
   \<and> ''bogus'' \<noteq> ''pre-data'' \<and> ''bogus'' \<noteq> ''data'' \<and> ''bogus'' \<noteq> ''post-data''
   \<and> g_jmpEnv abc_registered \<noteq> None
   \<and> \<not> returned (set_dump_section host_env ''bogus'' 255 abc_registered)"
proof -
  have fits: "on_exit_nicely_index abc_registered \<le> length (on_exit_nicely_list abc_registered)"
    by (simp add: abc_registered_def abc_def)
  have armed: "g_jmpEnv abc_registered \<noteq> None"
    by (simp add: abc_registered_def armed_state_def)
  note inst = exit_nicely_caller_goes_on_iff_returned [OF finalizers_return_host fits,
      where k = "\<lambda>s. Returns (s\<lparr>progname := Some ''went on''\<rparr>)" and arg = "''bogus''" and ds = 255]
  have 1: "bnd (exit_nicely host_env 1 abc_registered) (\<lambda>s. Returns (s\<lparr>progname := Some ''went on''\<rparr>)) =
       Longjmp 1 (abc_registered\<lparr>on_exit_nicely_index := 0, world := [(3, 1, 30), (2, 1, 20), (1, 1, 10)]\<rparr>)"
    using inst [of 1]
    by (simp add: abc_registered_def abc_def armed_state_def start_state_def log_firing_def host_env_def)
  have 2: "bnd (exit_nicely host_env 0 abc_registered) (\<lambda>s. Returns (s\<lparr>progname := Some ''went on''\<rparr>)) =
       Returns (abc_registered\<lparr>on_exit_nicely_index := 0, world := [(3, 0, 30), (2, 0, 20), (1, 0, 10)],
                               progname := Some ''went on''\<rparr>)"
    using inst [of 0]
    by (simp add: abc_registered_def abc_def armed_state_def start_state_def log_firing_def host_env_def)
  have 3: "\<not> returned (set_dump_section host_env ''bogus'' 255 abc_registered)"
    using inst [of 1] armed by simp
  from finalizers_return_host fits armed 1 2 3 show ?thesis
    by simp
qed

text \<open>
  C7 as stated fails: entered with the code 1 while no resumption point is in
  place, \<^verbatim>\<open>exit_nicely\<close> comes back to its caller after the finalizers, and
  \<^verbatim>\<open>set_dump_section\<close>, having called it for an unknown name, comes back to its own
  caller with the section mask.
\<close>

theorem exit_nicely_comes_back_counterexample:
  "returned (exit_nicely host_env 1 abc_unarmed)
   \<and> set_dump_section host_env ''bogus'' 255 abc_unarmed =
       Returns (0, abc_unarmed\<lparr>on_exit_nicely_index := 0, world := [(3, 1, 30), (2, 1, 20), (1, 1, 10)]\<rparr>)"
proof -
  have silent: "write_msg host_env None fmt ap abc_unarmed = abc_unarmed" for fmt ap
    by (simp add: write_msg_def vwrite_msg_def abc_unarmed_def abc_registered_def armed_state_def
          start_state_def)
  show ?thesis
    by (simp add: set_dump_section_def Let_def silent exit_nicely_host_unarmed)
       (simp add: host_env_def)
qed


subsection \<open>Entering the termination primitive again\<close>

lemma exit_nicely_Returns_reset:
  assumes "exit_nicely env code st = Returns st'"
  shows "on_exit_nicely_index st' = 0"
proof (cases "exit_loop env code (on_exit_nicely_index st) st")
  case (Returns st1)
  with assms show ?thesis
    by (auto simp: exit_nicely_def Let_def split: if_splits)
next
  case (Longjmp v s)
  with assms show ?thesis
    by (simp add: exit_nicely_def)
qed

lemma exit_nicely_empty:
  assumes "on_exit_nicely_index st = 0"
  shows "exit_nicely env code st =
     (if code \<noteq> 0 \<and> g_jmpEnv st \<noteq> None
      then Longjmp 1 (st\<lparr>world := CleanDumpable env (world st)\<rparr>)
      else Returns (st\<lparr>world := CleanDumpable env (world st)\<rparr>))"
proof -
  have "st\<lparr>on_exit_nicely_index := 0\<rparr> = st"
    using assms by simp
  then show ?thesis
    using assms by (simp add: exit_nicely_def Let_def)
qed

text \<open>
  C10, as the code has it.  Once a call of \<^verbatim>\<open>exit_nicely\<close> has returned to its
  caller, the count is zero, and a further call made before any new registration
  calls no finalizer, whatever the registered function pointers stand for: it only
  runs \<^verbatim>\<open>CleanDumpable\<close> and the test for the transfer.
\<close>

theorem exit_nicely_again_after_return:
  assumes "exit_nicely env code st = Returns st'"
  shows "on_exit_nicely_index st' = 0
       \<and> exit_nicely env code' st' =
           (if code' \<noteq> 0 \<and> g_jmpEnv st' \<noteq> None
            then Longjmp 1 (st'\<lparr>world := CleanDumpable env (world st')\<rparr>)
            else Returns (st'\<lparr>world := CleanDumpable env (world st')\<rparr>))
       \<and> exit_nicely (env\<lparr>callback := other\<rparr>) code' st' = exit_nicely env code' st'"
  using exit_nicely_Returns_reset [OF assms]
  by (simp add: exit_nicely_empty)

theorem exit_nicely_again_after_return_witness:
  "exit_nicely host_env 1 abc_unarmed =
     Returns (abc_unarmed\<lparr>on_exit_nicely_index := 0, world := [(3, 1, 30), (2, 1, 20), (1, 1, 10)]\<rparr>)
   \<and> exit_nicely host_env 1
        (abc_unarmed\<lparr>on_exit_nicely_index := 0, world := [(3, 1, 30), (2, 1, 20), (1, 1, 10)]\<rparr>) =
     Returns (abc_unarmed\<lparr>on_exit_nicely_index := 0, world := [(3, 1, 30), (2, 1, 20), (1, 1, 10)]\<rparr>)"
proof -
  have "exit_nicely host_env 1
        (abc_unarmed\<lparr>on_exit_nicely_index := 0, world := [(3, 1, 30), (2, 1, 20), (1, 1, 10)]\<rparr>) =
     Returns (abc_unarmed\<lparr>on_exit_nicely_index := 0, world := [(3, 1, 30), (2, 1, 20), (1, 1, 10)]\<rparr>)"
    using exit_nicely_again_after_return [OF exit_nicely_host_unarmed, of 1]
    by (simp add: abc_unarmed_def host_env_def)
  with exit_nicely_host_unarmed show ?thesis
    by simp
qed

text \<open>
  The finalizers of \<open>reentrant_env\<close> are one piece of code: in the nested call
  they are called with a log that is not empty, where they only log.
\<close>

lemma vwrite_msg_other_callbacks:
  "vwrite_msg (env\<lparr>callback := other\<rparr>) m fmt ap s = vwrite_msg env m fmt ap s"
  by (simp add: vwrite_msg_def cong: option.case_cong)

lemma vwrite_msg_reentrant:
  "vwrite_msg reentrant_env m fmt ap s = vwrite_msg host_env m fmt ap s"
  by (simp add: reentrant_env_def vwrite_msg_other_callbacks)

lemma exit_loop_reentrant:
  assumes "world s \<noteq> []"
  shows "exit_loop reentrant_env code n s = exit_loop host_env code n s"
  using assms
proof (induction n arbitrary: s)
  case 0
  then show ?case by simp
next
  case (Suc n)
  let ?e = "on_exit_nicely_list s ! n"
  have "callback reentrant_env (fst ?e) code (snd ?e) s = Returns (log_firing (fst ?e) code (snd ?e) s)"
    using Suc.prems by (simp add: reentrant_env_def log_firing_def Let_def)
  moreover have "callback host_env (fst ?e) code (snd ?e) s = Returns (log_firing (fst ?e) code (snd ?e) s)"
    by (simp add: host_env_def)
  moreover have "world (log_firing (fst ?e) code (snd ?e) s) \<noteq> []"
    by (simp add: log_firing_def)
  ultimately show ?case
    using Suc.IH by simp
qed

lemma reentrant_callback:
  "callback reentrant_env f code a s =
     (let s1 = log_firing f code a s
      in if length (world s1) = 1
         then exit_horribly reentrant_env None ''could not close archive\<newline>'' [] s1
         else Returns s1)"
proof -
  have "exit_horribly reentrant_env m fmt ap s1 = exit_horribly host_env m fmt ap s1"
    if "world s1 \<noteq> []" for m fmt ap and s1 :: "firing_log state"
  proof -
    have "world (vwrite_msg host_env m fmt ap s1) \<noteq> []"
      using that by simp
    then show ?thesis
      by (simp add: exit_horribly_def exit_nicely_def vwrite_msg_reentrant exit_loop_reentrant)
         (simp add: reentrant_env_def)
  qed
  moreover have "world (log_firing f code a s) \<noteq> []"
    by (simp add: log_firing_def)
  ultimately show ?thesis
    by (simp add: reentrant_env_def Let_def)
qed

text \<open>
  C10 as stated fails: the one registered finalizer meets a fatal condition while
  it is fired, the count is still 1 when \<^verbatim>\<open>exit_nicely\<close> is entered the second
  time, and the finalizer is fired again: the log shows it twice.
\<close>

theorem exit_nicely_nested_counterexample:
  "on_exit_nicely_index one_registered = 1
   \<and> on_exit_nicely_list one_registered ! 0 = (7, 70)
   \<and> \<not> returned (exit_nicely reentrant_env 1 one_registered)
   \<and> world (final_state (exit_nicely reentrant_env 1 one_registered)) = [(7, 1, 70), (7, 1, 70)]"
  by (simp add: one_registered_def armed_state_def start_state_def exit_nicely_def exit_horribly_def
        vwrite_msg_def reentrant_env_def host_env_def log_firing_def Let_def)


subsection \<open>The capacity of the registry\<close>

lemma exit_horribly_fire:
  assumes "finalizers_return env cb"
    and "on_exit_nicely_index st \<le> length (on_exit_nicely_list st)"
  shows "exit_horribly env m fmt ap st =
     (let reported = vwrite_msg env m fmt ap st;
          fired = fire cb 1 (rev (take (on_exit_nicely_index st) (on_exit_nicely_list st))) reported;
          fin = fired\<lparr>on_exit_nicely_index := 0, world := CleanDumpable env (world fired)\<rparr>
      in if g_jmpEnv st \<noteq> None then Longjmp 1 fin else Returns fin)"
proof -
  have "on_exit_nicely_index (vwrite_msg env m fmt ap st)
          \<le> length (on_exit_nicely_list (vwrite_msg env m fmt ap st))"
    using assms(2) by simp
  from exit_nicely_fire [OF assms(1) this, of 1] show ?thesis
    by (simp add: exit_horribly_def Let_def)
qed

lemma on_exit_nicely_full_unarmed:
  assumes "finalizers_return env cb"
    and "on_exit_nicely_index st = MAX_ON_EXIT_NICELY"
    and "length (on_exit_nicely_list st) = MAX_ON_EXIT_NICELY"
    and "g_jmpEnv st = None"
  shows "\<exists>fin. on_exit_nicely env f a st = Returns fin
           \<and> on_exit_nicely_index fin = 1 \<and> on_exit_nicely_list fin ! 0 = (f, a)"
proof -
  have fits: "on_exit_nicely_index st \<le> length (on_exit_nicely_list st)"
    using assms(2,3) by simp
  let ?fired = "fire cb 1 (rev (take (on_exit_nicely_index st) (on_exit_nicely_list st)))
                  (vwrite_msg env None ''out of on_exit_nicely slots\<newline>'' [] st)"
  have "length (on_exit_nicely_list ?fired) = MAX_ON_EXIT_NICELY"
    using assms(3) by (simp add: fire_list_unchanged [OF assms(1)])
  then have "0 < length (on_exit_nicely_list ?fired)"
    by (simp add: MAX_ON_EXIT_NICELY_def)
  then show ?thesis
    using assms(2,4) exit_horribly_fire [OF assms(1) fits, of None "''out of on_exit_nicely slots\<newline>''" "[]"]
    by (simp add: on_exit_nicely_def Let_def)
qed

text \<open>
  The two stores of \<^verbatim>\<open>on_exit_nicely\<close> stay inside the array: when the call
  returns, the array has its twenty entries, the count is at most twenty, and the
  pair sits just below the count.
\<close>

lemma on_exit_nicely_stores_inside:
  assumes "finalizers_return env cb"
    and "length (on_exit_nicely_list st) = MAX_ON_EXIT_NICELY"
    and "on_exit_nicely_index st \<le> MAX_ON_EXIT_NICELY"
    and "on_exit_nicely env f a st = Returns st'"
  shows "length (on_exit_nicely_list st') = MAX_ON_EXIT_NICELY
       \<and> 0 < on_exit_nicely_index st' \<and> on_exit_nicely_index st' \<le> MAX_ON_EXIT_NICELY
       \<and> on_exit_nicely_list st' ! (on_exit_nicely_index st' - 1) = (f, a)"
proof (cases "on_exit_nicely_index st < MAX_ON_EXIT_NICELY")
  case True
  with assms(2,4) show ?thesis
    by (auto simp: on_exit_nicely_below)
next
  case False
  with assms(3) have full: "on_exit_nicely_index st = MAX_ON_EXIT_NICELY"
    by simp
  have fits: "on_exit_nicely_index st \<le> length (on_exit_nicely_list st)"
    using assms(2,3) by simp
  let ?fired = "fire cb 1 (rev (take (on_exit_nicely_index st) (on_exit_nicely_list st)))
                  (vwrite_msg env None ''out of on_exit_nicely slots\<newline>'' [] st)"
  have len: "length (on_exit_nicely_list ?fired) = MAX_ON_EXIT_NICELY"
    using assms(2) by (simp add: fire_list_unchanged [OF assms(1)])
  then have "0 < length (on_exit_nicely_list ?fired)"
    by (simp add: MAX_ON_EXIT_NICELY_def)
  with len show ?thesis
    using assms(4) full exit_horribly_fire [OF assms(1) fits, of None "''out of on_exit_nicely slots\<newline>''" "[]"]
    by (auto simp: on_exit_nicely_def Let_def MAX_ON_EXIT_NICELY_def split: if_splits)
qed

text \<open>
  C4, as the code has it.  Below the capacity a call of \<^verbatim>\<open>on_exit_nicely\<close>
  stores the pair at the count and adds one to the count.  With the registry
  full, a resumption point in place and finalizers that return, the call does not
  store the pair: it writes \<^verbatim>\<open>out of on_exit_nicely slots\<close> through the message sink
  (under the program's title; into the capture buffer when a slot is set and the
  allocator grants the request), lets \<^verbatim>\<open>exit_nicely(1)\<close> fire the twenty finalizers
  and reset the count, and leaves for the resumption point.
\<close>

theorem on_exit_nicely_capacity:
  assumes "length (on_exit_nicely_list st) = MAX_ON_EXIT_NICELY"
  shows "(on_exit_nicely_index st < MAX_ON_EXIT_NICELY \<longrightarrow>
            on_exit_nicely env f a st =
              Returns (st\<lparr>on_exit_nicely_list := (on_exit_nicely_list st)[on_exit_nicely_index st := (f, a)],
                          on_exit_nicely_index := on_exit_nicely_index st + 1\<rparr>))
       \<and> (on_exit_nicely_index st = MAX_ON_EXIT_NICELY \<and> g_jmpEnv st \<noteq> None \<and> finalizers_return env cb \<longrightarrow>
            (\<exists>reported fired fin.
                reported = vwrite_msg env None ''out of on_exit_nicely slots\<newline>'' [] st
              \<and> fired = fire cb 1 (rev (on_exit_nicely_list st)) reported
              \<and> fin = fired\<lparr>on_exit_nicely_index := 0, world := CleanDumpable env (world fired)\<rparr>
              \<and> on_exit_nicely env f a st = Longjmp 1 fin
              \<and> on_exit_nicely_list fin = on_exit_nicely_list st
              \<and> on_exit_nicely_index fin = 0
              \<and> (\<forall>slot. g_outMsgBuf st = Some slot
                    \<and> heap_grants env (heap_reqs st)
                        (buffer_request (store st slot)
                           (diagnostic env (progname st) None ''out of on_exit_nicely slots\<newline>'' []))
                    \<longrightarrow> store reported slot =
                          Some (held (store st slot)
                                @ diagnostic env (progname st) None ''out of on_exit_nicely slots\<newline>'' []))))"
proof (intro conjI impI)
  assume "on_exit_nicely_index st < MAX_ON_EXIT_NICELY"
  then show "on_exit_nicely env f a st =
      Returns (st\<lparr>on_exit_nicely_list := (on_exit_nicely_list st)[on_exit_nicely_index st := (f, a)],
                  on_exit_nicely_index := on_exit_nicely_index st + 1\<rparr>)"
    by (rule on_exit_nicely_below)
next
  assume full: "on_exit_nicely_index st = MAX_ON_EXIT_NICELY \<and> g_jmpEnv st \<noteq> None \<and> finalizers_return env cb"
  let ?reported = "vwrite_msg env None ''out of on_exit_nicely slots\<newline>'' [] st"
  let ?fired = "fire cb 1 (rev (on_exit_nicely_list st)) ?reported"
  let ?fin = "?fired\<lparr>on_exit_nicely_index := 0, world := CleanDumpable env (world ?fired)\<rparr>"
  from full have ret: "finalizers_return env cb" and armed: "g_jmpEnv st \<noteq> None"
    and idx: "on_exit_nicely_index st = MAX_ON_EXIT_NICELY"
    by simp_all
  have fits: "on_exit_nicely_index st \<le> length (on_exit_nicely_list st)"
    using idx assms by simp
  have all: "take (on_exit_nicely_index st) (on_exit_nicely_list st) = on_exit_nicely_list st"
    using idx assms by simp
  have jump: "on_exit_nicely env f a st = Longjmp 1 ?fin"
    using idx armed all exit_horribly_fire [OF ret fits, of None "''out of on_exit_nicely slots\<newline>''" "[]"]
    by (simp add: on_exit_nicely_def Let_def)
  have same: "on_exit_nicely_list ?fin = on_exit_nicely_list st"
    by (simp add: fire_list_unchanged [OF ret])
  have written: "store ?reported slot =
       Some (held (store st slot) @ diagnostic env (progname st) None ''out of on_exit_nicely slots\<newline>'' [])"
    if "g_outMsgBuf st = Some slot"
      and "heap_grants env (heap_reqs st)
             (buffer_request (store st slot)
                (diagnostic env (progname st) None ''out of on_exit_nicely slots\<newline>'' []))"
    for slot
    using that by (simp add: vwrite_msg_slot Let_def)
  from jump same written
  show "\<exists>reported fired fin.
                reported = vwrite_msg env None ''out of on_exit_nicely slots\<newline>'' [] st
              \<and> fired = fire cb 1 (rev (on_exit_nicely_list st)) reported
              \<and> fin = fired\<lparr>on_exit_nicely_index := 0, world := CleanDumpable env (world fired)\<rparr>
              \<and> on_exit_nicely env f a st = Longjmp 1 fin
              \<and> on_exit_nicely_list fin = on_exit_nicely_list st
              \<and> on_exit_nicely_index fin = 0
              \<and> (\<forall>slot. g_outMsgBuf st = Some slot
                    \<and> heap_grants env (heap_reqs st)
                        (buffer_request (store st slot)
                           (diagnostic env (progname st) None ''out of on_exit_nicely slots\<newline>'' []))
                    \<longrightarrow> store reported slot =
                          Some (held (store st slot)
                                @ diagnostic env (progname st) None ''out of on_exit_nicely slots\<newline>'' []))"
    by simp
qed


theorem on_exit_nicely_capacity_witness:
  "length (on_exit_nicely_list armed_state) = MAX_ON_EXIT_NICELY
   \<and> on_exit_nicely_index armed_state < MAX_ON_EXIT_NICELY
   \<and> on_exit_nicely host_env 9 99 armed_state =
       Returns (armed_state\<lparr>on_exit_nicely_list := (on_exit_nicely_list armed_state)[0 := (9, 99)],
                            on_exit_nicely_index := 1\<rparr>)
   \<and> length (on_exit_nicely_list full_armed) = MAX_ON_EXIT_NICELY
   \<and> on_exit_nicely_index full_armed = MAX_ON_EXIT_NICELY
   \<and> g_jmpEnv full_armed \<noteq> None
   \<and> finalizers_return host_env log_firing
   \<and> g_outMsgBuf full_armed = Some 0
   \<and> \<not> returned (on_exit_nicely host_env 9 99 full_armed)
   \<and> on_exit_nicely_list (final_state (on_exit_nicely host_env 9 99 full_armed)) = replicate 20 (5, 50)
   \<and> on_exit_nicely_index (final_state (on_exit_nicely host_env 9 99 full_armed)) = 0
   \<and> store (final_state (on_exit_nicely host_env 9 99 full_armed)) 0 =
       Some ''tool: out of on_exit_nicely slots\<newline>''"
proof -
  have len1: "length (on_exit_nicely_list armed_state) = MAX_ON_EXIT_NICELY"
    by (simp add: armed_state_def start_state_def MAX_ON_EXIT_NICELY_def)
  have below: "on_exit_nicely_index armed_state < MAX_ON_EXIT_NICELY"
    by (simp add: armed_state_def start_state_def MAX_ON_EXIT_NICELY_def)
  have len2: "length (on_exit_nicely_list full_armed) = MAX_ON_EXIT_NICELY"
    by (simp add: full_armed_def full_state_def MAX_ON_EXIT_NICELY_def)
  have full: "on_exit_nicely_index full_armed = MAX_ON_EXIT_NICELY"
    by (simp add: full_armed_def full_state_def MAX_ON_EXIT_NICELY_def)
  have armed: "g_jmpEnv full_armed \<noteq> None"
    by (simp add: full_armed_def)
  have slot: "g_outMsgBuf full_armed = Some 0"
    by (simp add: full_armed_def full_state_def)
  have granted: "heap_grants host_env h r" for h r
    by (simp add: host_env_def)
  have appended: "on_exit_nicely host_env 9 99 armed_state =
       Returns (armed_state\<lparr>on_exit_nicely_list := (on_exit_nicely_list armed_state)[0 := (9, 99)],
                            on_exit_nicely_index := 1\<rparr>)"
    using on_exit_nicely_capacity [OF len1, of host_env 9 99 log_firing] below
    by (simp add: armed_state_def start_state_def)
  obtain reported fired fin where
        reported: "reported = vwrite_msg host_env None ''out of on_exit_nicely slots\<newline>'' [] full_armed"
    and fired: "fired = fire log_firing 1 (rev (on_exit_nicely_list full_armed)) reported"
    and fin: "fin = fired\<lparr>on_exit_nicely_index := 0, world := CleanDumpable host_env (world fired)\<rparr>"
    and jump: "on_exit_nicely host_env 9 99 full_armed = Longjmp 1 fin"
    and same: "on_exit_nicely_list fin = on_exit_nicely_list full_armed"
    and zero: "on_exit_nicely_index fin = 0"
    and written: "store reported 0 =
          Some (held (store full_armed 0)
                @ diagnostic host_env (progname full_armed) None ''out of on_exit_nicely slots\<newline>'' [])"
    using on_exit_nicely_capacity [OF len2, of host_env 9 99 log_firing] full armed slot granted
      finalizers_return_host
    by blast
  have "store fired = store reported"
    unfolding fired by (rule fire_preserves) (simp add: log_firing_def)
  with fin written have "store fin 0 = Some ''tool: out of on_exit_nicely slots\<newline>''"
    by (simp add: held_def diagnostic_def c_str_def host_env_def full_armed_def full_state_def
          start_state_def)
  with len1 below appended len2 full armed slot jump same zero finalizers_return_host
  show ?thesis
    by (simp add: full_armed_def full_state_def)
qed

text \<open>
  C4 as stated fails: with the registry full and no resumption point in place,
  \<^verbatim>\<open>exit_horribly\<close> comes back, the count having been reset, and the call goes on to
  store the pair in entry 0 and return with the count at 1.
\<close>

theorem on_exit_nicely_full_counterexample:
  "on_exit_nicely_index full_state = MAX_ON_EXIT_NICELY
   \<and> length (on_exit_nicely_list full_state) = MAX_ON_EXIT_NICELY
   \<and> returned (on_exit_nicely host_env 9 99 full_state)
   \<and> on_exit_nicely_index (final_state (on_exit_nicely host_env 9 99 full_state)) = 1
   \<and> on_exit_nicely_list (final_state (on_exit_nicely host_env 9 99 full_state)) ! 0 = (9, 99)"
proof -
  have full: "on_exit_nicely_index full_state = MAX_ON_EXIT_NICELY"
    and len: "length (on_exit_nicely_list full_state) = MAX_ON_EXIT_NICELY"
    and unarmed: "g_jmpEnv full_state = None"
    by (simp_all add: full_state_def start_state_def MAX_ON_EXIT_NICELY_def)
  from on_exit_nicely_full_unarmed [OF finalizers_return_host full len unarmed, of 9 99]
  obtain fin where "on_exit_nicely host_env 9 99 full_state = Returns fin"
    and "on_exit_nicely_index fin = 1" and "on_exit_nicely_list fin ! 0 = (9, 99)"
    by blast
  with full len show ?thesis
    by simp
qed


subsection \<open>The title of a diagnostic\<close>

text \<open>
  C6, as the code has it.  With a capture slot set and the allocation granted, the
  text added for a call with a module name is the program name, a colon, a blank,
  the (looked-up) module name in square brackets, one blank, and the formatted
  message: no colon follows the closing bracket.  Without a module name it is the
  program name, a colon and a blank, then the message.  With program name
  \<^verbatim>\<open>tool\<close>, no catalogue and a formatter that fills \<^verbatim>\<open>%s\<close>,
  \<^verbatim>\<open>emit(nil, "unrecognized option: %s", "--bogus")\<close> on an empty buffer leaves
  \<^verbatim>\<open>tool: unrecognized option: --bogus\<close>.
\<close>

theorem vwrite_msg_title:
  assumes "g_outMsgBuf st = Some slot"
    and "\<forall>r. heap_grants env (heap_reqs st) r"
  shows "store (vwrite_msg env (Some m) fmt ap st) slot =
           Some (held (store st slot) @ c_str (progname st) @ '': ['' @ gettext env m @ ''] ''
                 @ vsnprintf env (gettext env fmt) ap)
       \<and> store (vwrite_msg env None fmt ap st) slot =
           Some (held (store st slot) @ c_str (progname st) @ '': '' @ vsnprintf env (gettext env fmt) ap)
       \<and> (progname st = Some ''tool'' \<and> store st slot = None \<and> gettext env = (\<lambda>s. s) \<and> vsnprintf env = c_format
            \<longrightarrow> store (vwrite_msg env None ''unrecognized option: %s'' [Str ''--bogus''] st) slot =
                  Some ''tool: unrecognized option: --bogus'')"
  using assms by (simp add: vwrite_msg_slot Let_def diagnostic_def held_def c_str_def)

theorem vwrite_msg_title_witness:
  "g_outMsgBuf slot_state = Some 0
   \<and> (\<forall>r. heap_grants host_env (heap_reqs slot_state) r)
   \<and> store (vwrite_msg host_env (Some ''archiver'') ''could not open %s'' [Str ''x.dump''] slot_state) 0 =
       Some ''tool: [archiver] could not open x.dump''
   \<and> progname slot_state = Some ''tool'' \<and> store slot_state 0 = None
   \<and> gettext host_env = (\<lambda>s. s) \<and> vsnprintf host_env = c_format
   \<and> store (vwrite_msg host_env None ''unrecognized option: %s'' [Str ''--bogus''] slot_state) 0 =
       Some ''tool: unrecognized option: --bogus''"
proof -
  have slot: "g_outMsgBuf slot_state = Some 0"
    by (simp add: slot_state_def)
  have granted: "\<forall>r. heap_grants host_env (heap_reqs slot_state) r"
    by (simp add: host_env_def)
  have others: "progname slot_state = Some ''tool''" "store slot_state 0 = None"
    "gettext host_env = (\<lambda>s. s)" "vsnprintf host_env = c_format"
    by (simp_all add: slot_state_def start_state_def host_env_def)
  have "store (vwrite_msg host_env (Some ''archiver'') ''could not open %s'' [Str ''x.dump''] slot_state) 0 =
       Some ''tool: [archiver] could not open x.dump''"
    using vwrite_msg_title [OF slot granted, of "''archiver''" "''could not open %s''" "[Str ''x.dump'']"] others
    by (simp add: held_def c_str_def)
  moreover have "store (vwrite_msg host_env None ''unrecognized option: %s'' [Str ''--bogus''] slot_state) 0 =
       Some ''tool: unrecognized option: --bogus''"
    using vwrite_msg_title [OF slot granted, of "''archiver''" "''could not open %s''" "[Str ''x.dump'']"] others
    by blast
  ultimately show ?thesis
    using slot granted others by blast
qed

text \<open>
  C6 as stated fails: for the module name \<^verbatim>\<open>archiver\<close> the text recorded starts
  with \<^verbatim>\<open>tool: [archiver] \<close>, not with \<^verbatim>\<open>tool: [archiver]: \<close>.
\<close>

theorem vwrite_msg_module_title_counterexample:
  "store (vwrite_msg host_env (Some ''archiver'') ''unrecognized option: %s'' [Str ''--bogus''] slot_state) 0
     = Some ''tool: [archiver] unrecognized option: --bogus''
   \<and> store (vwrite_msg host_env (Some ''archiver'') ''unrecognized option: %s'' [Str ''--bogus''] slot_state) 0
     \<noteq> Some (''tool: [archiver]: '' @ ''unrecognized option: --bogus'')"
  by (simp add: vwrite_msg_def slot_state_def start_state_def host_env_def c_str_def Let_def)


subsection \<open>The capture buffer grows at its end\<close>

lemma emits_frame [simp]:
  "g_outMsgBuf (emits env cs st) = g_outMsgBuf st"
  "progname (emits env cs st) = progname st"
  by (induction cs arbitrary: st) simp_all

lemma vwrite_msg_extends:
  "\<exists>added. held (store (vwrite_msg env m fmt ap st) slot) = held (store st slot) @ added"
proof (cases "g_outMsgBuf st")
  case None
  then show ?thesis by (simp add: vwrite_msg_def)
next
  case (Some slot')
  then show ?thesis
    by (simp add: vwrite_msg_slot Let_def held_def)
qed

lemma emits_extends:
  "\<exists>added. held (store (emits env cs st) slot) = held (store st slot) @ added"
proof (induction cs arbitrary: st)
  case Nil
  then show ?case by simp
next
  case (Cons c cs)
  let ?st1 = "vwrite_msg env (fst c) (fst (snd c)) (snd (snd c)) st"
  obtain a where "held (store ?st1 slot) = held (store st slot) @ a"
    using vwrite_msg_extends by blast
  moreover obtain b where "held (store (emits env cs ?st1) slot) = held (store ?st1 slot) @ b"
    using Cons.IH by blast
  ultimately have "held (store (emits env (c # cs) st) slot) = held (store st slot) @ (a @ b)"
    by simp
  then show ?case by blast
qed

lemma emits_all_granted:
  assumes "\<forall>h r. heap_grants env h r" and "g_outMsgBuf st = Some slot"
  shows "store (emits env cs st) slot =
     (if cs = [] then store st slot
      else Some (held (store st slot)
                 @ concat (map (\<lambda>c. diagnostic env (progname st) (fst c) (fst (snd c)) (snd (snd c))) cs)))"
  using assms(2)
proof (induction cs arbitrary: st)
  case Nil
  then show ?case by simp
next
  case (Cons c cs)
  let ?st1 = "vwrite_msg env (fst c) (fst (snd c)) (snd (snd c)) st"
  have first: "store ?st1 slot =
      Some (held (store st slot) @ diagnostic env (progname st) (fst c) (fst (snd c)) (snd (snd c)))"
    using assms(1) Cons.prems by (simp add: vwrite_msg_slot Let_def)
  have "g_outMsgBuf ?st1 = Some slot"
    using Cons.prems by simp
  from Cons.IH [OF this] first show ?case
    by (simp add: held_def)
qed

text \<open>
  C9, as the code has it.  With a capture slot set, a call of \<^verbatim>\<open>vwrite_msg\<close> asks
  the allocator for title length + message length + 1 bytes (\<^verbatim>\<open>malloc\<close>) when the
  slot holds \<^verbatim>\<open>NULL\<close>, and for old length + title length + message length + 1
  bytes (\<^verbatim>\<open>realloc\<close>) otherwise.  When the request is granted the slot's buffer is
  its old content followed by title and message; when it is refused the slot keeps
  what it held.  So over any sequence of calls the old content stays in front,
  and when every request is granted the buffer, from the first call on, is the
  content it started with followed by every diagnostic in emission order.
\<close>

theorem vwrite_msg_appends:
  assumes "g_outMsgBuf st = Some slot"
  shows "vwrite_msg env m fmt ap st =
           (let text = diagnostic env (progname st) m fmt ap;
                req = (case store st slot of
                         None \<Rightarrow> Malloc (length text + 1)
                       | Some buf \<Rightarrow> Realloc (length buf + length text + 1));
                st1 = st\<lparr>heap_reqs := heap_reqs st @ [req]\<rparr>
            in if heap_grants env (heap_reqs st) req
               then st1\<lparr>store := (store st)(slot := Some (held (store st slot) @ text))\<rparr>
               else st1)
       \<and> (\<exists>added. held (store (emits env cs st) slot) = held (store st slot) @ added)
       \<and> ((\<forall>h r. heap_grants env h r) \<and> cs \<noteq> [] \<longrightarrow>
            store (emits env cs st) slot =
              Some (held (store st slot)
                    @ concat (map (\<lambda>c. diagnostic env (progname st) (fst c) (fst (snd c)) (snd (snd c))) cs)))"
  using vwrite_msg_slot [OF assms, of env m fmt ap] emits_extends [of env cs st slot]
    emits_all_granted [OF _ assms, of env cs]
  by (simp add: buffer_request_def)

theorem vwrite_msg_appends_witness:
  "g_outMsgBuf slot_state = Some 0
   \<and> (\<forall>h r. heap_grants host_env h r)
   \<and> [(None, ''first %d\<newline>'', [Num 1]), (Some ''archiver'', ''second %s\<newline>'', [Str ''two''])] \<noteq> []
   \<and> store (emits host_env [(None, ''first %d\<newline>'', [Num 1]),
                              (Some ''archiver'', ''second %s\<newline>'', [Str ''two''])] slot_state) 0 =
       Some ''tool: first 1\<newline>tool: [archiver] second two\<newline>''
   \<and> heap_reqs (emits host_env [(None, ''first %d\<newline>'', [Num 1]),
                                  (Some ''archiver'', ''second %s\<newline>'', [Str ''two''])] slot_state) =
       [Malloc 15, Realloc 43]"
proof -
  have slot: "g_outMsgBuf slot_state = Some 0"
    by (simp add: slot_state_def)
  have granted: "\<forall>h r. heap_grants host_env h r"
    by (simp add: host_env_def)
  have one: "dec_int 1 = ''1''"
    by (simp add: dec_int_def dec.simps)
  have "store (emits host_env [(None, ''first %d\<newline>'', [Num 1]),
                              (Some ''archiver'', ''second %s\<newline>'', [Str ''two''])] slot_state) 0 =
       Some ''tool: first 1\<newline>tool: [archiver] second two\<newline>''"
    using vwrite_msg_appends [OF slot, of host_env None "''x''" "[]"
        "[(None, ''first %d\<newline>'', [Num 1]), (Some ''archiver'', ''second %s\<newline>'', [Str ''two''])]"]
      granted
    by (simp add: diagnostic_def held_def c_str_def host_env_def slot_state_def start_state_def one)
  moreover have "heap_reqs (emits host_env [(None, ''first %d\<newline>'', [Num 1]),
                                  (Some ''archiver'', ''second %s\<newline>'', [Str ''two''])] slot_state) =
       [Malloc 15, Realloc 43]"
    by (simp add: vwrite_msg_def host_env_def slot_state_def start_state_def c_str_def Let_def one)
  ultimately show ?thesis
    using slot granted by simp
qed

text \<open>
  C9 as stated fails: the allocator refuses the first request, so the first
  diagnostic is dropped; the second is recorded, and the buffer, now not
  \<^verbatim>\<open>NULL\<close>, holds the second diagnostic only.
\<close>

theorem vwrite_msg_refused_counterexample:
  "g_outMsgBuf slot_state = Some 0
   \<and> store (emits stingy_env [(None, ''first\<newline>'', [])] slot_state) 0 = None
   \<and> store (emits stingy_env [(None, ''first\<newline>'', []), (None, ''second\<newline>'', [])] slot_state) 0 =
       Some ''tool: second\<newline>''"
  by (simp add: vwrite_msg_def stingy_env_def host_env_def slot_state_def start_state_def c_str_def Let_def)


subsection \<open>The status of a run\<close>

lemma exit_nicely_armed:
  assumes "finalizers_return env cb"
    and "on_exit_nicely_index st \<le> length (on_exit_nicely_list st)"
    and "g_jmpEnv st \<noteq> None"
  shows "\<exists>fin. exit_nicely env 1 st = Longjmp 1 fin"
  using exit_nicely_fire [OF assms(1,2), of 1] assms(3) by (simp add: Let_def)

lemma write_msgs_frame:
  "on_exit_nicely_index (fold (\<lambda>l s. write_msg env m (gettext env (fst l)) (snd l) s) ls st) = on_exit_nicely_index st"
  "on_exit_nicely_list (fold (\<lambda>l s. write_msg env m (gettext env (fst l)) (snd l) s) ls st) = on_exit_nicely_list st"
  "g_jmpEnv (fold (\<lambda>l s. write_msg env m (gettext env (fst l)) (snd l) s) ls st) = g_jmpEnv st"
  by (induction ls arbitrary: st) (simp_all add: write_msg_def)

lemma help_or_version_leaves:
  assumes "finalizers_return env cb"
    and "on_exit_nicely_index st \<le> length (on_exit_nicely_list st)"
    and "g_jmpEnv st \<noteq> None"
    and "1 < length argv"
    and "argv ! 1 \<in> {''--help'', ''-?'', ''--version'', ''-V''}"
  shows "\<exists>fin. help_or_version env drv argv st = Longjmp 1 fin"
proof (cases "argv ! 1 = ''--help'' \<or> argv ! 1 = ''-?''")
  case True
  have "\<exists>fin. exit_nicely env 1 (usage env (c_str (progname st)) st) = Longjmp 1 fin"
    using assms(2,3) by (intro exit_nicely_armed [OF assms(1)]) (simp_all add: usage_def write_msgs_frame)
  with True assms(4) show ?thesis
    by (auto simp: help_or_version_def)
next
  case False
  with assms(5) have version: "argv ! 1 = ''--version'' \<or> argv ! 1 = ''-V''"
    by blast
  have "\<exists>fin. exit_nicely env 1
                 (write_msg env None ''pg_restore (PostgreSQL) %s'' [Str (PG_VERSION drv)] st) = Longjmp 1 fin"
    using assms(2,3) by (intro exit_nicely_armed [OF assms(1)]) (simp_all add: write_msg_def)
  with False version assms(4) show ?thesis
    by (auto simp: help_or_version_def)
qed

lemma pg_restore_internal_starts:
  "\<exists>s k. pg_restore_internal env drv argv outMsgBuf st = bnd (help_or_version env drv argv s) k
         \<and> on_exit_nicely_index s = on_exit_nicely_index st
         \<and> on_exit_nicely_list s = on_exit_nicely_list st
         \<and> g_jmpEnv s = g_jmpEnv st"
  unfolding pg_restore_internal_def Let_def
  by (intro exI conjI) (rule refl, simp_all)

text \<open>
  C1, as the code has it.  \<^verbatim>\<open>pg_restore\<close> returns 1 when the driver returns to it
  and 0 when control comes back through the resumption point.  So a run ended by
  \<^verbatim>\<open>exit_nicely\<close> with a non-zero code returns 0; the exits for \<^verbatim>\<open>--help\<close> and
  \<^verbatim>\<open>--version\<close> are such runs (finalizers that return).
\<close>

theorem pg_restore_status:
  assumes "finalizers_return env cb"
    and "on_exit_nicely_index st \<le> length (on_exit_nicely_list st)"
  shows "fst (pg_restore env drv argv outMsgBuf st) =
           (if returned (pg_restore_internal env drv argv outMsgBuf (st\<lparr>g_jmpEnv := Some ()\<rparr>)) then 1 else 0)
       \<and> (1 < length argv \<and> argv ! 1 \<in> {''--help'', ''-?'', ''--version'', ''-V''}
            \<longrightarrow> fst (pg_restore env drv argv outMsgBuf st) = 0)"
proof (intro conjI impI)
  show "fst (pg_restore env drv argv outMsgBuf st) =
           (if returned (pg_restore_internal env drv argv outMsgBuf (st\<lparr>g_jmpEnv := Some ()\<rparr>)) then 1 else 0)"
    by (cases "pg_restore_internal env drv argv outMsgBuf (st\<lparr>g_jmpEnv := Some ()\<rparr>)")
       (simp_all add: pg_restore_def)
next
  assume usage_exit: "1 < length argv \<and> argv ! 1 \<in> {''--help'', ''-?'', ''--version'', ''-V''}"
  obtain s k where start: "pg_restore_internal env drv argv outMsgBuf (st\<lparr>g_jmpEnv := Some ()\<rparr>)
                      = bnd (help_or_version env drv argv s) k"
    and idx: "on_exit_nicely_index s = on_exit_nicely_index (st\<lparr>g_jmpEnv := Some ()\<rparr>)"
    and lst: "on_exit_nicely_list s = on_exit_nicely_list (st\<lparr>g_jmpEnv := Some ()\<rparr>)"
    and env: "g_jmpEnv s = g_jmpEnv (st\<lparr>g_jmpEnv := Some ()\<rparr>)"
    using pg_restore_internal_starts by blast
  have "\<exists>fin. help_or_version env drv argv s = Longjmp 1 fin"
    using usage_exit assms(2) idx lst env
    by (intro help_or_version_leaves [OF assms(1)]) simp_all
  then obtain fin where "pg_restore_internal env drv argv outMsgBuf (st\<lparr>g_jmpEnv := Some ()\<rparr>) = Longjmp 1 fin"
    using start by auto
  then show "fst (pg_restore env drv argv outMsgBuf st) = 0"
    by (simp add: pg_restore_def)
qed


subsection \<open>Concrete runs\<close>

lemmas drive_defs = pg_restore_def pg_restore_internal_def help_or_version_def Let_def host_drv_def
  blank_options_def on_exit_close_archive_def on_exit_nicely_def MAX_ON_EXIT_NICELY_def
  start_state_def arg_text_def set_flag_def plain_argv_def version_argv_def

lemma report_errors_count:
  "n_errors (archives (report_errors k AH st) AH) = n_errors (archives st AH) + int k"
  by (induction k arbitrary: st) (simp_all add: write_msg_def)

lemma plain_run:
  "pg_restore host_env (host_drv 0) plain_argv (Some 0) start_state =
     (1, start_state\<lparr>g_outMsgBuf := Some 0, progname := Some ''pg_restore'', optind := 2,
           on_exit_nicely_list := (replicate 20 (0, 0))[0 := (8, 1)], on_exit_nicely_index := 1\<rparr>)"
  by (simp add: drive_defs cong: bnd_weak_cong) (simp add: host_env_def fun_eq_iff)

lemma plain_run_returned:
  "returned (pg_restore_internal host_env (host_drv n) plain_argv (Some 0) (start_state\<lparr>g_jmpEnv := Some ()\<rparr>))"
  by (simp add: drive_defs cong: bnd_weak_cong)

lemma version_run:
  "pg_restore host_env (host_drv 0) version_argv (Some 0) start_state =
     (0, start_state\<lparr>g_outMsgBuf := Some 0, progname := Some ''pg_restore'',
           store := (\<lambda>a. None)(0 := Some ''pg_restore: pg_restore (PostgreSQL) 9.3''),
           heap_reqs := [Malloc 40]\<rparr>)"
  by (simp add: drive_defs exit_nicely_def write_msg_def vwrite_msg_def c_str_def cong: bnd_weak_cong)
     (simp add: host_env_def fun_eq_iff)

lemma version_run_left:
  "\<not> returned (pg_restore_internal host_env (host_drv 0) version_argv (Some 0) (start_state\<lparr>g_jmpEnv := Some ()\<rparr>))"
  by (simp add: drive_defs exit_nicely_def write_msg_def vwrite_msg_def c_str_def cong: bnd_weak_cong)

lemma errors_run_status:
  "fst (pg_restore host_env (host_drv 3) plain_argv (Some 0) start_state) = 1"
  by (simp add: drive_defs cong: bnd_weak_cong)

lemma errors_run_count:
  "n_errors (archives (snd (pg_restore host_env (host_drv 3) plain_argv (Some 0) start_state)) 1) = 3"
  by (simp add: drive_defs report_errors_count write_msg_def cong: bnd_weak_cong)

theorem pg_restore_status_witness:
  "finalizers_return host_env log_firing
   \<and> on_exit_nicely_index start_state \<le> length (on_exit_nicely_list start_state)
   \<and> returned (pg_restore_internal host_env (host_drv 0) plain_argv (Some 0) (start_state\<lparr>g_jmpEnv := Some ()\<rparr>))
   \<and> fst (pg_restore host_env (host_drv 0) plain_argv (Some 0) start_state) = 1
   \<and> 1 < length version_argv
   \<and> version_argv ! 1 \<in> {''--help'', ''-?'', ''--version'', ''-V''}
   \<and> fst (pg_restore host_env (host_drv 0) version_argv (Some 0) start_state) = 0"
proof -
  have fits: "on_exit_nicely_index start_state \<le> length (on_exit_nicely_list start_state)"
    by (simp add: start_state_def)
  have usage_exit: "1 < length version_argv \<and> version_argv ! 1 \<in> {''--help'', ''-?'', ''--version'', ''-V''}"
    by (simp add: version_argv_def)
  have "fst (pg_restore host_env (host_drv 0) plain_argv (Some 0) start_state) = 1"
    using pg_restore_status [OF finalizers_return_host fits, of "host_drv 0" plain_argv "Some 0"]
      plain_run_returned [of 0]
    by simp
  moreover have "fst (pg_restore host_env (host_drv 0) version_argv (Some 0) start_state) = 0"
    using pg_restore_status [OF finalizers_return_host fits, of "host_drv 0" version_argv "Some 0"]
      usage_exit
    by blast
  ultimately show ?thesis
    using finalizers_return_host fits usage_exit plain_run_returned [of 0] by blast
qed

text \<open>
  C1 as stated fails.  A run in which the driver returns, with no error at all,
  has the status 1, not 0; the run answering \<^verbatim>\<open>--version\<close>, ended by
  \<^verbatim>\<open>exit_nicely(1)\<close>, has the status 0, not 1; and a run that completes with three
  non-fatal errors has the status 1 of the run without errors.
\<close>

theorem pg_restore_status_counterexample:
  "returned (pg_restore_internal host_env (host_drv 0) plain_argv (Some 0) (start_state\<lparr>g_jmpEnv := Some ()\<rparr>))
   \<and> n_errors (archives (snd (pg_restore host_env (host_drv 0) plain_argv (Some 0) start_state)) 1) = 0
   \<and> fst (pg_restore host_env (host_drv 0) plain_argv (Some 0) start_state) = 1
   \<and> \<not> returned (pg_restore_internal host_env (host_drv 0) version_argv (Some 0) (start_state\<lparr>g_jmpEnv := Some ()\<rparr>))
   \<and> fst (pg_restore host_env (host_drv 0) version_argv (Some 0) start_state) = 0
   \<and> returned (pg_restore_internal host_env (host_drv 3) plain_argv (Some 0) (start_state\<lparr>g_jmpEnv := Some ()\<rparr>))
   \<and> n_errors (archives (snd (pg_restore host_env (host_drv 3) plain_argv (Some 0) start_state)) 1) = 3
   \<and> fst (pg_restore host_env (host_drv 3) plain_argv (Some 0) start_state) = 1"
  using plain_run_returned [of 0] plain_run_returned [of 3] version_run_left errors_run_status errors_run_count
  by (simp add: plain_run version_run) (simp add: start_state_def)

subsection \<open>What a run leaves behind\<close>

lemma pg_restore_clears_resumption_point:
  "g_jmpEnv (snd (pg_restore env drv argv outMsgBuf st)) = None"
  by (cases "pg_restore_internal env drv argv outMsgBuf (st\<lparr>g_jmpEnv := Some ()\<rparr>)")
     (simp_all add: pg_restore_def)

text \<open>
  C3 at a run in which the driver returns: the archive opens, the restore meets
  no error, \<^verbatim>\<open>pg_restore\<close> returns 1.  The resumption point is cleared, but the
  finalizer registered by \<^verbatim>\<open>on_exit_close_archive\<close> is still in the registry: the
  count is 1, and after a second such run it is 2.
\<close>

theorem pg_restore_leaves_registration:
  "returned (pg_restore_internal host_env (host_drv 0) plain_argv (Some 0) (start_state\<lparr>g_jmpEnv := Some ()\<rparr>))
   \<and> on_exit_nicely_index start_state = 0
   \<and> g_jmpEnv (snd (pg_restore host_env (host_drv 0) plain_argv (Some 0) start_state)) = None
   \<and> on_exit_nicely_index (snd (pg_restore host_env (host_drv 0) plain_argv (Some 0) start_state)) = 1
   \<and> on_exit_nicely_list (snd (pg_restore host_env (host_drv 0) plain_argv (Some 0) start_state)) ! 0 = (8, 1)
   \<and> on_exit_nicely_index
        (snd (pg_restore host_env (host_drv 0) plain_argv (Some 0)
           (snd (pg_restore host_env (host_drv 0) plain_argv (Some 0) start_state)))) = 2"
proof -
  have "on_exit_nicely_index
        (snd (pg_restore host_env (host_drv 0) plain_argv (Some 0)
           (start_state\<lparr>g_outMsgBuf := Some 0, progname := Some ''pg_restore'', optind := 2,
              on_exit_nicely_list := (replicate 20 (0, 0))[0 := (8, 1)], on_exit_nicely_index := 1\<rparr>))) = 2"
    by (simp add: drive_defs cong: bnd_weak_cong)
  then show ?thesis
    using plain_run_returned [of 0] by (simp add: plain_run) (simp add: start_state_def)
qed

end
